theory Spec2Isabelle
  imports Complex_Main "HOL-Library.Option_ord" "HOL-Library.Multiset"
begin

section \<open>Values, rows and the two tables\<close>

text \<open>
  The service of \<^verbatim>\<open>app.py\<close> translates four HTTP requests into SQL statements on two
  PostgreSQL tables. Python values and SQL cells share one universe of values: what
  psycopg2 hands to the server and what it hands back. A \<^verbatim>\<open>datetime.date\<close> is its
  proleptic Gregorian ordinal (\<^verbatim>\<open>date.toordinal()\<close>), whose order is the calendar
  order; a Python \<^verbatim>\<open>float\<close> is the real number it denotes, a finite double (the
  infinities and NaN are not modelled), and where the database computes with doubles the
  result is rounded; \<^verbatim>\<open>None\<close> is SQL's \<^verbatim>\<open>NULL\<close>. A Python \<^verbatim>\<open>dict\<close> is an association list in insertion order, its keys
  distinct (\<open>py_dict\<close>).
\<close>

type_synonym date = nat

datatype pyval =
    PyNone
  | PyStr string
  | PyInt int
  | PyFloat real
  | PyDate date
  | PyDict "(string \<times> pyval) list"
  | PyList "pyval list"

type_synonym row = "(string \<times> pyval) list"

definition py_dict :: "(string \<times> 'v) list \<Rightarrow> bool" where
  "py_dict d = distinct (map fst d)"

record database =
  estimasi_harian :: "row list"
  estimasi_metadata :: "row list"

definition empty_db :: database where
  "empty_db = \<lparr>estimasi_harian = [], estimasi_metadata = []\<rparr>"

text \<open>The cell of a row under a column name; a column the row does not list is \<^verbatim>\<open>NULL\<close>.\<close>

definition col :: "row \<Rightarrow> string \<Rightarrow> pyval" where
  "col r c = (case map_of r c of Some v \<Rightarrow> v | None \<Rightarrow> PyNone)"

definition key_of :: "string list \<Rightarrow> row \<Rightarrow> pyval list" where
  "key_of key r = map (col r) key"

subsection \<open>INSERT ... ON CONFLICT (key) DO UPDATE SET c = EXCLUDED.c\<close>

text \<open>
  The row proposed for insertion (\<^verbatim>\<open>EXCLUDED\<close>) pairs the statement's column list with
  its values. When a stored row has the same key, the columns of the \<^verbatim>\<open>SET\<close> list take
  the proposed values and every other column keeps its own; otherwise the proposed row is
  added. Both statements of \<^verbatim>\<open>ingest\<close> list every column of their table, so an
  inserted row has no defaulted column.
\<close>

definition do_update :: "string list \<Rightarrow> row \<Rightarrow> row \<Rightarrow> row" where
  "do_update upd ex r = map (\<lambda>(c, v). (c, if c \<in> set upd then col ex c else v)) r"

fun insert_on_conflict :: "string list \<Rightarrow> string list \<Rightarrow> row \<Rightarrow> row list \<Rightarrow> row list" where
  "insert_on_conflict key upd ex [] = [ex]"
| "insert_on_conflict key upd ex (r # rs) =
     (if key_of key r = key_of key ex then do_update upd ex r # rs
      else r # insert_on_conflict key upd ex rs)"

section \<open>The environment: storage failures and the transaction scope\<close>

text \<open>
  A storage error (connection failure, constraint violation, timeout) is decided by the
  environment, not by the program: \<open>env\<close> says at which point of a request the driver
  raises, and with which text. \<^verbatim>\<open>with get_conn() as conn\<close> runs its body on the
  transaction's working copy of the database; leaving the scope commits the working copy
  when the body ended normally and discards it when the body raised. A commit that fails
  commits nothing.
\<close>

record env =
  connect_error :: "string option"
  execute_error :: "nat \<Rightarrow> string option"
  commit_error :: "string option"

definition no_faults :: env where
  "no_faults = \<lparr>connect_error = None, execute_error = (\<lambda>n. None), commit_error = None\<rparr>"

datatype py_exception =
    DatabaseError string
  | ValueError string
  | HTTPException nat string

definition get_conn :: "env \<Rightarrow> database \<Rightarrow> string + database" where
  "get_conn e db = (case connect_error e of Some msg \<Rightarrow> Inl msg | None \<Rightarrow> Inr db)"

definition cur_execute :: "env \<Rightarrow> nat \<Rightarrow> (database \<Rightarrow> database) \<Rightarrow> database \<Rightarrow> string + database" where
  "cur_execute e n stmt w = (case execute_error e n of Some msg \<Rightarrow> Inl msg | None \<Rightarrow> Inr (stmt w))"

definition cur_query :: "env \<Rightarrow> nat \<Rightarrow> (database \<Rightarrow> string + 'a) \<Rightarrow> database \<Rightarrow> string + 'a" where
  "cur_query e n q w = (case execute_error e n of Some msg \<Rightarrow> Inl msg | None \<Rightarrow> q w)"

definition conn_exit :: "env \<Rightarrow> database \<Rightarrow> string + database \<Rightarrow> (string + unit) \<times> database" where
  "conn_exit e db body =
     (case body of
        Inl msg \<Rightarrow> (Inl msg, db)
      | Inr w \<Rightarrow> (case commit_error e of Some msg \<Rightarrow> (Inl msg, db) | None \<Rightarrow> (Inr (), w)))"

section \<open>The payload and its validation\<close>

record PayloadAggregat =
  tanggal :: date
  kota :: string
  estimasi :: "(string \<times> real) list"
  rata_rata_kota :: real
  tanggal_fitur :: "(string \<times> (string \<times> string) list) list option"

text \<open>
  The request body before pydantic has built the model: \<^verbatim>\<open>kota\<close> and
  \<^verbatim>\<open>tanggal_fitur\<close> may be missing. \<open>not_empty\<close> is the validator of the field
  \<^verbatim>\<open>estimasi\<close>.
\<close>

record ingest_body =
  body_tanggal :: date
  body_kota :: "string option"
  body_estimasi :: "(string \<times> real) list"
  body_rata_rata_kota :: real
  body_tanggal_fitur :: "(string \<times> (string \<times> string) list) list option"

definition not_empty :: "(string \<times> real) list \<Rightarrow> py_exception + (string \<times> real) list" where
  "not_empty v = (if v = [] then Inl (ValueError ''estimasi kosong'') else Inr v)"

definition parse_payload :: "ingest_body \<Rightarrow> py_exception + PayloadAggregat" where
  "parse_payload b =
     (case not_empty (body_estimasi b) of
        Inl err \<Rightarrow> Inl err
      | Inr v \<Rightarrow> Inr \<lparr>tanggal = body_tanggal b,
                      kota = (case body_kota b of None \<Rightarrow> ''Depok'' | Some k \<Rightarrow> k),
                      estimasi = v,
                      rata_rata_kota = body_rata_rata_kota b,
                      tanggal_fitur = body_tanggal_fitur b\<rparr>)"

section \<open>The ingest handler\<close>

definition kolom_map :: "(string \<times> string) list" where
  "kolom_map =
     [(''Beji'', ''beji''), (''Bojongsari'', ''bojongsari''), (''Cilodong'', ''cilodong''),
      (''Cimanggis'', ''cimanggis''), (''Cinere'', ''cinere''), (''Cipayung'', ''cipayung''),
      (''Limo'', ''limo''), (''Pancoran Mas'', ''pancoran_mas''), (''Sawangan'', ''sawangan''),
      (''Sukmajaya'', ''sukmajaya''), (''Tapos'', ''tapos'')]"

definition cols :: "string list" where
  "cols = [''tanggal'', ''kota'', ''rata_rata_kota''] @ map snd kolom_map"

definition dict_get :: "(string \<times> real) list \<Rightarrow> string \<Rightarrow> pyval" where
  "dict_get d k = (case map_of d k of Some x \<Rightarrow> PyFloat x | None \<Rightarrow> PyNone)"

definition values_of :: "PayloadAggregat \<Rightarrow> pyval list" where
  "values_of payload =
     [PyDate (tanggal payload), PyStr (kota payload), PyFloat (rata_rata_kota payload)]
     @ map (\<lambda>k. dict_get (estimasi payload) k) (map fst kolom_map)"

definition upsert_sql :: "pyval list \<Rightarrow> row list \<Rightarrow> row list" where
  "upsert_sql vals t = insert_on_conflict [''tanggal''] (tl cols) (zip cols vals) t"

text \<open>
  \<^verbatim>\<open>json.dumps\<close> of a dictionary of strings is represented by the dictionary it
  serialises; \<^verbatim>\<open>fitur\<close> is always the empty dictionary.
\<close>

definition json_dumps :: "(string \<times> string) list \<Rightarrow> pyval" where
  "json_dumps d = PyDict (map (\<lambda>(k, v). (k, PyStr v)) d)"

definition meta_rows_of :: "PayloadAggregat \<Rightarrow> pyval list list" where
  "meta_rows_of payload =
     (case tanggal_fitur payload of
        None \<Rightarrow> []
      | Some tf \<Rightarrow>
          if tf = [] then []
          else map (\<lambda>(kec, meta). [PyDate (tanggal payload), PyStr kec, json_dumps [], json_dumps meta]) tf)"

definition meta_cols :: "string list" where
  "meta_cols = [''tanggal'', ''kecamatan'', ''fitur'', ''tanggal_fitur'']"

definition upsert_meta :: "pyval list \<Rightarrow> row list \<Rightarrow> row list" where
  "upsert_meta vals t =
     insert_on_conflict [''tanggal'', ''kecamatan''] [''fitur'', ''tanggal_fitur''] (zip meta_cols vals) t"

definition execute_values :: "pyval list list \<Rightarrow> row list \<Rightarrow> row list" where
  "execute_values rows t = fold upsert_meta rows t"

definition ingest_ok :: "nat \<Rightarrow> pyval" where
  "ingest_ok n =
     PyDict [(''status'', PyStr ''ok''), (''upserted'', PyStr ''estimasi_harian''),
             (''meta_rows'', PyInt (int n))]"

definition ingest_body_run :: "env \<Rightarrow> database \<Rightarrow> PayloadAggregat \<Rightarrow> string + database" where
  "ingest_body_run e db payload =
     (case get_conn e db of
        Inl msg \<Rightarrow> Inl msg
      | Inr w0 \<Rightarrow>
          (case cur_execute e 0 (estimasi_harian_update (upsert_sql (values_of payload))) w0 of
             Inl msg \<Rightarrow> Inl msg
           | Inr w1 \<Rightarrow>
               if meta_rows_of payload \<noteq> []
               then cur_execute e 1 (estimasi_metadata_update (execute_values (meta_rows_of payload))) w1
               else Inr w1))"

definition ingest :: "env \<Rightarrow> database \<Rightarrow> PayloadAggregat \<Rightarrow> (py_exception + pyval) \<times> database" where
  "ingest e db payload =
     (case conn_exit e db (ingest_body_run e db payload) of
        (Inl msg, db') \<Rightarrow> (Inl (HTTPException 500 msg), db')
      | (Inr u, db') \<Rightarrow> (Inr (ingest_ok (length (meta_rows_of payload))), db'))"

section \<open>The query handlers\<close>

text \<open>
  \<^verbatim>\<open>ORDER BY tanggal DESC\<close> sorts on the date of the key column; a row with no date
  there, which the primary key excludes, would sort last. \<^verbatim>\<open>SELECT *\<close> hands back the
  columns of a row under their names. Each handler runs its query and shapes its answer
  inside the connection scope, which commits on the way out. The read handlers have no
  \<^verbatim>\<open>try\<close>: what the driver raises leaves the handler as it is.
\<close>

definition tanggal_key :: "row \<Rightarrow> date option" where
  "tanggal_key r = (case col r ''tanggal'' of PyDate d \<Rightarrow> Some d | _ \<Rightarrow> None)"

definition order_by_tanggal_desc :: "row list \<Rightarrow> row list" where
  "order_by_tanggal_desc t = rev (sort_key tanggal_key t)"

definition dict_zip :: "string list \<Rightarrow> pyval list \<Rightarrow> pyval" where
  "dict_zip cs vs = PyDict (zip cs vs)"

definition read_scope :: "env \<Rightarrow> database \<Rightarrow> (database \<Rightarrow> string + pyval) \<Rightarrow> py_exception + pyval" where
  "read_scope e db q =
     (case get_conn e db of
        Inl msg \<Rightarrow> Inl (DatabaseError msg)
      | Inr w \<Rightarrow>
          (case cur_query e 0 q w of
             Inl msg \<Rightarrow> Inl (DatabaseError msg)
           | Inr v \<Rightarrow> (case commit_error e of Some msg \<Rightarrow> Inl (DatabaseError msg) | None \<Rightarrow> Inr v)))"

definition latest_sql :: "database \<Rightarrow> string + pyval" where
  "latest_sql w =
     Inr (case take 1 (order_by_tanggal_desc (estimasi_harian w)) of
            [] \<Rightarrow> PyDict [(''data'', PyNone)]
          | r # _ \<Rightarrow> PyDict [(''data'', dict_zip (map fst r) (map snd r))])"

definition latest :: "env \<Rightarrow> database \<Rightarrow> py_exception + pyval" where
  "latest e db = read_scope e db latest_sql"

text \<open>
  \<^verbatim>\<open>LIMIT %s\<close> receives the caller's integer as it is. PostgreSQL takes a
  \<^verbatim>\<open>bigint\<close> there and rejects a negative one, whatever the table holds.
\<close>

definition pg_limit :: "int \<Rightarrow> string + nat" where
  "pg_limit n =
     (if n < 0 then Inl ''LIMIT must not be negative''
      else if 9223372036854775807 < n then Inl ''bigint out of range''
      else Inr (nat n))"

definition history_cols :: "string list" where
  "history_cols =
     [''tanggal'', ''kota'', ''rata_rata_kota'', ''beji'', ''bojongsari'', ''cilodong'',
      ''cimanggis'', ''cinere'', ''cipayung'', ''limo'', ''pancoran_mas'', ''sawangan'',
      ''sukmajaya'', ''tapos'']"

definition history_sql :: "int \<Rightarrow> database \<Rightarrow> string + pyval" where
  "history_sql limit w =
     (case pg_limit limit of
        Inl msg \<Rightarrow> Inl msg
      | Inr n \<Rightarrow>
          Inr (PyDict [(''data'',
                 PyList (map (\<lambda>r. dict_zip history_cols (map (col r) history_cols))
                             (take n (order_by_tanggal_desc (estimasi_harian w)))))]))"

definition history :: "env \<Rightarrow> database \<Rightarrow> int \<Rightarrow> py_exception + pyval" where
  "history e db limit = read_scope e db (history_sql limit)"

text \<open>
  The aggregates of \<^verbatim>\<open>stats\<close> range over the cells of \<^verbatim>\<open>rata_rata_kota\<close> that are
  not \<^verbatim>\<open>NULL\<close>; over no cell at all they are \<^verbatim>\<open>NULL\<close>. \<^verbatim>\<open>COUNT(*)\<close> counts rows.
  \<^verbatim>\<open>MIN\<close> and \<^verbatim>\<open>MAX\<close> return one of the cells. \<^verbatim>\<open>AVG\<close> over double precision
  computes in doubles: it adds the cells in the order of the rows, every sum rounded to a
  double, and divides the last sum by the count, the quotient rounded. The rounding of a
  real number to a double is the parameter \<open>fl\<close> of the model; a cell is a finite double.
\<close>

definition float_cells :: "string \<Rightarrow> row list \<Rightarrow> real list" where
  "float_cells c t = concat (map (\<lambda>r. case col r c of PyFloat x \<Rightarrow> [x] | _ \<Rightarrow> []) t)"

definition float_sum :: "(real \<Rightarrow> real) \<Rightarrow> real list \<Rightarrow> real" where
  "float_sum fl xs = fold (\<lambda>x s. fl (s + x)) xs 0"

definition sql_avg :: "(real \<Rightarrow> real) \<Rightarrow> real list \<Rightarrow> pyval" where
  "sql_avg fl xs =
     (if xs = [] then PyNone else PyFloat (fl (float_sum fl xs / real (length xs))))"

fun sql_min :: "real list \<Rightarrow> pyval" where
  "sql_min [] = PyNone"
| "sql_min (x # xs) = PyFloat (fold min xs x)"

fun sql_max :: "real list \<Rightarrow> pyval" where
  "sql_max [] = PyNone"
| "sql_max (x # xs) = PyFloat (fold max xs x)"

definition stats_sql :: "(real \<Rightarrow> real) \<Rightarrow> database \<Rightarrow> string + pyval" where
  "stats_sql fl w =
     (let xs = float_cells ''rata_rata_kota'' (estimasi_harian w)
      in Inr (PyDict [(''data'',
                dict_zip [''n_hari'', ''pm25_avg'', ''pm25_min'', ''pm25_max'']
                         [PyInt (int (length (estimasi_harian w))), sql_avg fl xs, sql_min xs,
                          sql_max xs])]))"

definition stats :: "(real \<Rightarrow> real) \<Rightarrow> env \<Rightarrow> database \<Rightarrow> py_exception + pyval" where
  "stats fl e db = read_scope e db (stats_sql fl)"

section \<open>The framework around the handlers\<close>

text \<open>
  FastAPI answers a handler's return value with status 200, an \<^verbatim>\<open>HTTPException\<close> with
  its own status and its detail, and any other exception with status 500 and the fixed
  text \<^verbatim>\<open>Internal Server Error\<close>. A body that pydantic rejects is answered with status
  422 before the handler is entered; of the detail of that answer, a list of error
  objects, the model keeps the validator's message. The query parameter \<^verbatim>\<open>limit\<close> of the history is 30
  when the request has none, and any integer otherwise.
\<close>

datatype http_response =
    Json nat pyval
  | Detail nat string
  | PlainText nat string

fun status_code :: "http_response \<Rightarrow> nat" where
  "status_code (Json n v) = n"
| "status_code (Detail n d) = n"
| "status_code (PlainText n t) = n"

fun respond :: "py_exception + pyval \<Rightarrow> http_response" where
  "respond (Inr v) = Json 200 v"
| "respond (Inl (HTTPException n d)) = Detail n d"
| "respond (Inl (ValueError m)) = PlainText 500 ''Internal Server Error''"
| "respond (Inl (DatabaseError m)) = PlainText 500 ''Internal Server Error''"

definition post_ingest :: "env \<Rightarrow> database \<Rightarrow> ingest_body \<Rightarrow> http_response \<times> database" where
  "post_ingest e db b =
     (case parse_payload b of
        Inl (ValueError m) \<Rightarrow> (Detail 422 m, db)
      | Inl err \<Rightarrow> (respond (Inl err), db)
      | Inr payload \<Rightarrow> (case ingest e db payload of (res, db') \<Rightarrow> (respond res, db')))"

definition get_latest :: "env \<Rightarrow> database \<Rightarrow> http_response" where
  "get_latest e db = respond (latest e db)"

definition get_history :: "env \<Rightarrow> database \<Rightarrow> int option \<Rightarrow> http_response" where
  "get_history e db limit = respond (history e db (case limit of None \<Rightarrow> 30 | Some n \<Rightarrow> n))"

definition get_stats :: "(real \<Rightarrow> real) \<Rightarrow> env \<Rightarrow> database \<Rightarrow> http_response" where
  "get_stats fl e db = respond (stats fl e db)"

section \<open>Notions the properties are stated with\<close>

text \<open>
  Modelled from the spec: the schema of the two tables, which the repository uses and does
  not declare. \<^verbatim>\<open>estimasi_harian\<close> has the date as primary key, the city, the city
  average and the eleven nullable area columns; \<^verbatim>\<open>estimasi_metadata\<close> has the composite
  primary key of date and area and two blob columns. A table is in order when every row
  lists the columns of its table and no two rows share a key; rows of
  \<^verbatim>\<open>estimasi_harian\<close> carry a date in the key column and a number in
  \<^verbatim>\<open>rata_rata_kota\<close>. The empty database is in order, and every ingest keeps it so
  (\<open>db_ok_empty\<close>, \<open>db_ok_ingest\<close>).
\<close>

definition table_ok :: "string list \<Rightarrow> string list \<Rightarrow> row list \<Rightarrow> bool" where
  "table_ok key upd t = (list_all (\<lambda>r. map fst r = key @ upd) t \<and> distinct (map (key_of key) t))"

definition is_float :: "pyval \<Rightarrow> bool" where
  "is_float v = (case v of PyFloat x \<Rightarrow> True | _ \<Rightarrow> False)"

definition harian_ok :: "row list \<Rightarrow> bool" where
  "harian_ok t =
     (table_ok [''tanggal''] (tl cols) t
      \<and> list_all (\<lambda>r. tanggal_key r \<noteq> None \<and> is_float (col r ''rata_rata_kota'')) t)"

definition metadata_ok :: "row list \<Rightarrow> bool" where
  "metadata_ok t = table_ok [''tanggal'', ''kecamatan''] [''fitur'', ''tanggal_fitur''] t"

definition db_ok :: "database \<Rightarrow> bool" where
  "db_ok db = (harian_ok (estimasi_harian db) \<and> metadata_ok (estimasi_metadata db))"

text \<open>
  The rows of a table stored for a date, for a date and an area, and for a date and one
  of a set of areas.
\<close>

definition rows_of_date :: "date \<Rightarrow> row list \<Rightarrow> row list" where
  "rows_of_date d t = filter (\<lambda>r. col r ''tanggal'' = PyDate d) t"

definition rows_of_area :: "date \<Rightarrow> string \<Rightarrow> row list \<Rightarrow> row list" where
  "rows_of_area d a t = filter (\<lambda>r. col r ''tanggal'' = PyDate d \<and> col r ''kecamatan'' = PyStr a) t"

definition rows_of_areas :: "date \<Rightarrow> string set \<Rightarrow> row list \<Rightarrow> row list" where
  "rows_of_areas d A t =
     filter (\<lambda>r. col r ''tanggal'' = PyDate d \<and> col r ''kecamatan'' \<in> PyStr ` A) t"

text \<open>The keys of the payload's \<^verbatim>\<open>tanggal_fitur\<close>, and whether its dictionaries are dictionaries.\<close>

definition area_keys :: "PayloadAggregat \<Rightarrow> string set" where
  "area_keys payload = (case tanggal_fitur payload of None \<Rightarrow> {} | Some tf \<Rightarrow> fst ` set tf)"

definition payload_ok :: "PayloadAggregat \<Rightarrow> bool" where
  "payload_ok payload = (case tanggal_fitur payload of None \<Rightarrow> True | Some tf \<Rightarrow> py_dict tf)"

text \<open>
  The row the metadata statement proposes for one entry of \<^verbatim>\<open>tanggal_fitur\<close>, and the
  entries of \<^verbatim>\<open>estimasi\<close> under one of the eleven recognised names.
\<close>

definition meta_excluded :: "date \<Rightarrow> string \<times> (string \<times> string) list \<Rightarrow> row" where
  "meta_excluded d km = zip meta_cols [PyDate d, PyStr (fst km), json_dumps [], json_dumps (snd km)]"

definition known_only :: "(string \<times> real) list \<Rightarrow> (string \<times> real) list" where
  "known_only d = filter (\<lambda>(k, x). k \<in> set (map fst kolom_map)) d"

text \<open>
  The storage error a request meets first, when its scope executes \<open>n\<close> statements:
  on connecting, on one of the statements in turn, or on committing.
\<close>

definition first_error :: "env \<Rightarrow> nat \<Rightarrow> string option" where
  "first_error e n =
     (case connect_error e of
        Some msg \<Rightarrow> Some msg
      | None \<Rightarrow>
          (case find (\<lambda>i. execute_error e i \<noteq> None) [0..<n] of
             Some i \<Rightarrow> execute_error e i
           | None \<Rightarrow> commit_error e))"

definition ingest_statements :: "PayloadAggregat \<Rightarrow> nat" where
  "ingest_statements payload = (if meta_rows_of payload = [] then 1 else 2)"

text \<open>Both statements of \<^verbatim>\<open>ingest\<close> applied to a database.\<close>

definition both_upserts :: "PayloadAggregat \<Rightarrow> database \<Rightarrow> database" where
  "both_upserts payload db =
     \<lparr>estimasi_harian = upsert_sql (values_of payload) (estimasi_harian db),
      estimasi_metadata = execute_values (meta_rows_of payload) (estimasi_metadata db)\<rparr>"

section \<open>Example payloads\<close>

definition payload_beji :: PayloadAggregat where
  "payload_beji =
     \<lparr>tanggal = 738886, kota = ''Depok'', estimasi = [(''Beji'', 1)], rata_rata_kota = 10,
      tanggal_fitur = None\<rparr>"

definition payload_cinere :: PayloadAggregat where
  "payload_cinere =
     \<lparr>tanggal = 738886, kota = ''Depok'', estimasi = [(''Cinere'', 2)], rata_rata_kota = 12,
      tanggal_fitur = None\<rparr>"

definition payload_meta :: PayloadAggregat where
  "payload_meta =
     \<lparr>tanggal = 738887, kota = ''Depok'', estimasi = [(''Beji'', 21), (''Margonda'', 5)],
      rata_rata_kota = 20,
      tanggal_fitur = Some [(''Beji'', [(''aod'', ''2024-01-01'')]), (''Margonda'', [])]\<rparr>"

definition payload_third :: PayloadAggregat where
  "payload_third =
     \<lparr>tanggal = 738888, kota = ''Depok'', estimasi = [(''Tapos'', 33)], rata_rata_kota = 30,
      tanggal_fitur = Some []\<rparr>"

definition payload_unknown :: PayloadAggregat where
  "payload_unknown =
     \<lparr>tanggal = 738889, kota = ''Depok'', estimasi = [(''Margonda'', 5), (''Limo'', 7)],
      rata_rata_kota = 9, tanggal_fitur = None\<rparr>"

definition three_days :: database where
  "three_days = both_upserts payload_third (both_upserts payload_meta (both_upserts payload_beji empty_db))"

definition refused :: env where
  "refused = \<lparr>connect_error = Some ''connection refused'', execute_error = (\<lambda>n. None),
               commit_error = None\<rparr>"

definition metadata_fails :: env where
  "metadata_fails = \<lparr>connect_error = None,
                      execute_error = (\<lambda>n. if n = 1 then Some ''statement timeout'' else None),
                      commit_error = None\<rparr>"

section \<open>Rows and the upsert\<close>

lemma col_do_update:
  "col (do_update upd ex r) c = (if c \<in> set upd \<and> c \<in> fst ` set r then col ex c else col r c)"
  by (induction r) (auto simp: do_update_def col_def)

lemma fst_do_update: "map fst (do_update upd ex r) = map fst r"
  by (simp add: do_update_def case_prod_unfold)

lemma key_of_do_update:
  "set key \<inter> set upd = {} \<Longrightarrow> key_of key (do_update upd ex r) = key_of key r"
  by (auto simp: key_of_def col_do_update)

text \<open>Two rows over the same distinct columns are equal when their cells are.\<close>

lemma row_eqI:
  "map fst r = map fst r' \<Longrightarrow> distinct (map fst r) \<Longrightarrow>
   (\<And>c. c \<in> fst ` set r \<Longrightarrow> col r c = col r' c) \<Longrightarrow> r = r'"
proof (induction r arbitrary: r')
  case Nil
  then show ?case by simp
next
  case (Cons a r)
  then obtain b s where r': "r' = b # s" by (cases r') auto
  obtain c v where a: "a = (c, v)" by (cases a)
  obtain c' v' where b: "b = (c', v')" by (cases b)
  from Cons.prems(1) r' a b have cc: "c' = c" and fs: "map fst r = map fst s" by auto
  from Cons.prems(3)[of c] a b r' cc have vv: "v = v'" by (simp add: col_def)
  have "col r x = col s x" if "x \<in> fst ` set r" for x
  proof -
    from that Cons.prems(2) a have "x \<noteq> c" by auto
    with Cons.prems(3)[of x] that a b r' cc show ?thesis by (simp add: col_def)
  qed
  with Cons.IH[OF fs] Cons.prems(2) have "r = s" by simp
  with a b cc vv r' show ?case by simp
qed

lemma do_update_is_excluded:
  assumes "map fst r = key @ upd" "map fst ex = key @ upd" "distinct (key @ upd)"
    and "key_of key r = key_of key ex"
  shows "do_update upd ex r = ex"
proof (rule row_eqI)
  show "map fst (do_update upd ex r) = map fst ex" using assms by (simp add: fst_do_update)
  show "distinct (map fst (do_update upd ex r))" using assms by (simp add: fst_do_update)
  fix c assume "c \<in> fst ` set (do_update upd ex r)"
  then have c: "c \<in> set (key @ upd)" using assms(1) fst_do_update[of upd ex r]
    by (metis list.set_map)
  show "col (do_update upd ex r) c = col ex c"
  proof (cases "c \<in> set upd")
    case True
    then show ?thesis using assms(1) c by (simp add: col_do_update) (metis list.set_map c)
  next
    case False
    with c have "c \<in> set key" by simp
    with assms(4) have "col r c = col ex c" by (auto simp: key_of_def)
    with False show ?thesis by (simp add: col_do_update)
  qed
qed



lemma keys_insert_on_conflict:
  "set key \<inter> set upd = {} \<Longrightarrow>
   map (key_of key) (insert_on_conflict key upd ex t) =
     (if key_of key ex \<in> set (map (key_of key) t) then map (key_of key) t
      else map (key_of key) t @ [key_of key ex])"
  by (induction t) (auto simp: key_of_do_update)

lemma fst_insert_on_conflict:
  "list_all (\<lambda>r. map fst r = cs) t \<Longrightarrow> map fst ex = cs \<Longrightarrow>
   list_all (\<lambda>r. map fst r = cs) (insert_on_conflict key upd ex t)"
  by (induction t) (auto simp: fst_do_update)

lemma table_ok_insert_on_conflict:
  "table_ok key upd t \<Longrightarrow> map fst ex = key @ upd \<Longrightarrow> distinct (key @ upd) \<Longrightarrow>
   table_ok key upd (insert_on_conflict key upd ex t)"
  unfolding table_ok_def
  by (auto simp: keys_insert_on_conflict fst_insert_on_conflict)

lemma filter_other_insert_on_conflict:
  "set key \<inter> set upd = {} \<Longrightarrow> k \<noteq> key_of key ex \<Longrightarrow>
   filter (\<lambda>r. key_of key r = k) (insert_on_conflict key upd ex t) = filter (\<lambda>r. key_of key r = k) t"
  by (induction t) (auto simp: key_of_do_update)

lemma filter_key_insert_on_conflict:
  "table_ok key upd t \<Longrightarrow> map fst ex = key @ upd \<Longrightarrow> distinct (key @ upd) \<Longrightarrow>
   filter (\<lambda>r. key_of key r = key_of key ex) (insert_on_conflict key upd ex t) = [ex]"
proof (induction t)
  case Nil
  then show ?case by simp
next
  case (Cons r rs)
  show ?case
  proof (cases "key_of key r = key_of key ex")
    case True
    from Cons.prems(1) have fr: "map fst r = key @ upd" and nin: "key_of key r \<notin> set (map (key_of key) rs)"
      by (auto simp: table_ok_def)
    have "key_of key x \<noteq> key_of key ex" if "x \<in> set rs" for x
    proof
      assume "key_of key x = key_of key ex"
      with True have "key_of key r = key_of key x" by simp
      with that nin show False by (metis imageI list.set_map)
    qed
    then have "filter (\<lambda>r. key_of key r = key_of key ex) rs = []"
      by (simp add: filter_empty_conv)
    moreover have "do_update upd ex r = ex"
      using fr Cons.prems(2,3) True by (rule do_update_is_excluded)
    ultimately show ?thesis using True by simp
  next
    case False
    from Cons.prems(1) have "table_ok key upd rs" by (auto simp: table_ok_def)
    with Cons.IH Cons.prems(2,3) False show ?thesis by simp
  qed
qed



section \<open>The daily table under the upsert\<close>

lemma cols_eq:
  "cols = [''tanggal'', ''kota'', ''rata_rata_kota'', ''beji'', ''bojongsari'', ''cilodong'',
      ''cimanggis'', ''cinere'', ''cipayung'', ''limo'', ''pancoran_mas'', ''sawangan'',
      ''sukmajaya'', ''tapos'']"
  by (simp add: cols_def kolom_map_def)

lemma cols_key_upd: "''tanggal'' # tl cols = cols"
  by (simp add: cols_eq)

lemma distinct_cols: "distinct cols"
  by (simp add: cols_eq)

lemma key_upd_disjoint: "''tanggal'' \<notin> set (tl cols)"
  by (simp add: cols_eq)

lemma distinct_tl_cols: "distinct (tl cols)"
  by (simp add: cols_eq)

lemma length_values_of: "length (values_of p) = length cols"
  by (simp add: values_of_def cols_def)

lemma fst_excluded: "map fst (zip cols (values_of p)) = cols"
  by (simp add: length_values_of)

lemma excluded_eq:
  "zip cols (values_of p) =
     (''tanggal'', PyDate (tanggal p)) # (''kota'', PyStr (kota p))
     # (''rata_rata_kota'', PyFloat (rata_rata_kota p))
     # map (\<lambda>(k, c). (c, dict_get (estimasi p) k)) kolom_map"
  by (simp add: cols_def values_of_def zip_map_map case_prod_unfold zip_same_conv_map)

lemma col_excluded_tanggal: "col (zip cols (values_of p)) ''tanggal'' = PyDate (tanggal p)"
  by (simp add: excluded_eq col_def)

lemma col_excluded_kota: "col (zip cols (values_of p)) ''kota'' = PyStr (kota p)"
  by (simp add: excluded_eq col_def)

lemma col_excluded_rata: "col (zip cols (values_of p)) ''rata_rata_kota'' = PyFloat (rata_rata_kota p)"
  by (simp add: excluded_eq col_def)

lemma col_excluded_area:
  "list_all (\<lambda>(k, c). col (zip cols (values_of p)) c = dict_get (estimasi p) k) kolom_map"
  by (simp add: excluded_eq col_def kolom_map_def)

lemma key_of_excluded: "key_of [''tanggal''] (zip cols (values_of p)) = [PyDate (tanggal p)]"
  by (simp add: key_of_def col_excluded_tanggal)

lemma tanggal_key_excluded: "tanggal_key (zip cols (values_of p)) = Some (tanggal p)"
  by (simp add: tanggal_key_def col_excluded_tanggal)


lemma tanggal_key_do_update:
  "tanggal_key (do_update (tl cols) ex r) = tanggal_key r"
  by (simp add: tanggal_key_def col_do_update cols_eq)

lemma rata_do_update:
  assumes "map fst r = cols"
  shows "col (do_update (tl cols) ex r) ''rata_rata_kota'' = col ex ''rata_rata_kota''"
proof -
  from assms have "set (map fst r) = set cols" by simp
  then have "''rata_rata_kota'' \<in> fst ` set r" by (simp add: cols_eq)
  moreover have "''rata_rata_kota'' \<in> set (tl cols)" by (simp add: cols_eq)
  ultimately show ?thesis by (simp add: col_do_update)
qed

lemma typed_insert_on_conflict:
  assumes "list_all (\<lambda>r. tanggal_key r \<noteq> None \<and> is_float (col r ''rata_rata_kota'')) t"
    and "list_all (\<lambda>r. map fst r = cols) t"
  shows "list_all (\<lambda>r. tanggal_key r \<noteq> None \<and> is_float (col r ''rata_rata_kota''))
           (insert_on_conflict [''tanggal''] (tl cols) (zip cols (values_of p)) t)"
  using assms
  by (induction t)
     (simp_all add: tanggal_key_excluded col_excluded_rata is_float_def tanggal_key_do_update
        rata_do_update)

lemma harian_ok_upsert_sql:
  assumes "harian_ok t"
  shows "harian_ok (upsert_sql (values_of p) t)"
proof -
  from assms have ok: "table_ok [''tanggal''] (tl cols) t"
    and ty: "list_all (\<lambda>r. tanggal_key r \<noteq> None \<and> is_float (col r ''rata_rata_kota'')) t"
    by (simp_all add: harian_ok_def)
  from ok have fs: "list_all (\<lambda>r. map fst r = cols) t"
    by (simp add: table_ok_def cols_key_upd)
  have "table_ok [''tanggal''] (tl cols) (upsert_sql (values_of p) t)"
    unfolding upsert_sql_def using ok
    by (rule table_ok_insert_on_conflict)
       (simp_all add: fst_excluded cols_key_upd key_upd_disjoint distinct_tl_cols distinct_cols)
  with typed_insert_on_conflict[OF ty fs] show ?thesis
    by (simp add: harian_ok_def upsert_sql_def)
qed

lemma harian_ok_empty: "harian_ok []"
  by (simp add: harian_ok_def table_ok_def)

lemma rows_of_date_key:
  "rows_of_date d t = filter (\<lambda>r. key_of [''tanggal''] r = [PyDate d]) t"
  by (simp add: rows_of_date_def key_of_def)

lemma rows_of_date_upsert_sql:
  assumes "harian_ok t"
  shows "rows_of_date (tanggal p) (upsert_sql (values_of p) t) = [zip cols (values_of p)]"
proof -
  from assms have ok: "table_ok [''tanggal''] (tl cols) t" by (simp add: harian_ok_def)
  have "filter (\<lambda>r. key_of [''tanggal''] r = key_of [''tanggal''] (zip cols (values_of p)))
          (insert_on_conflict [''tanggal''] (tl cols) (zip cols (values_of p)) t) = [zip cols (values_of p)]"
    using ok by (rule filter_key_insert_on_conflict)
       (simp_all add: fst_excluded cols_key_upd key_upd_disjoint distinct_tl_cols distinct_cols)
  then show ?thesis by (simp add: rows_of_date_key upsert_sql_def key_of_excluded)
qed

lemma rows_of_date_upsert_sql_other:
  "d \<noteq> tanggal p \<Longrightarrow> rows_of_date d (upsert_sql (values_of p) t) = rows_of_date d t"
  unfolding rows_of_date_key upsert_sql_def
  by (rule filter_other_insert_on_conflict) (simp_all add: key_upd_disjoint key_of_excluded)


lemma ingest_cases:
  "ingest e db p = (Inr (ingest_ok (length (meta_rows_of p))), both_upserts p db)
     \<and> first_error e (ingest_statements p) = None
   \<or> (\<exists>msg. ingest e db p = (Inl (HTTPException 500 msg), db)
          \<and> first_error e (ingest_statements p) = Some msg)"
  by (cases db)
     (auto simp: ingest_def ingest_body_run_def conn_exit_def get_conn_def cur_execute_def
        first_error_def ingest_statements_def both_upserts_def execute_values_def
        upt_conv_Cons
        split: option.splits)

lemma ingest_Inr:
  "ingest e db p = (Inr v, db') \<Longrightarrow> v = ingest_ok (length (meta_rows_of p)) \<and> db' = both_upserts p db"
  using ingest_cases [of e db p] by auto

lemma first_error_no_faults: "first_error no_faults n = None"
  by (simp add: first_error_def no_faults_def find_None_iff split: option.splits)

lemma ingest_no_faults:
  "ingest no_faults db p = (Inr (ingest_ok (length (meta_rows_of p))), both_upserts p db)"
  using ingest_cases [of no_faults db p] by (auto simp: first_error_no_faults)

text \<open>
  C1. A successful ingest for a date leaves exactly one row for that date, and the row is
  the one built from the new payload alone: the key, the city, the city average, and for
  each of the eleven areas the payload's value or \<^verbatim>\<open>NULL\<close> when the payload has none.
  Nothing of the row stored before survives. With areas \<open>A\<close> and \<open>B\<close> among the eleven,
  a payload carrying only \<open>B: 2\<close> leaves \<open>A\<close> at \<^verbatim>\<open>NULL\<close> and \<open>B\<close> at 2, whatever the
  row held: in the instance below it held \<open>Beji: 1\<close>.
\<close>

theorem ingest_replaces_row:
  assumes "harian_ok (estimasi_harian db)"
    and "ingest e db p = (Inr v, db')"
  shows "rows_of_date (tanggal p) (estimasi_harian db') = [zip cols (values_of p)]
       \<and> map fst (zip cols (values_of p)) = cols
       \<and> col (zip cols (values_of p)) ''tanggal'' = PyDate (tanggal p)
       \<and> col (zip cols (values_of p)) ''kota'' = PyStr (kota p)
       \<and> col (zip cols (values_of p)) ''rata_rata_kota'' = PyFloat (rata_rata_kota p)
       \<and> list_all (\<lambda>(k, c). col (zip cols (values_of p)) c =
              (case map_of (estimasi p) k of Some x \<Rightarrow> PyFloat x | None \<Rightarrow> PyNone)) kolom_map
       \<and> ((A, ca) \<in> set kolom_map \<and> (B, cb) \<in> set kolom_map \<and> A \<noteq> B \<and> estimasi p = [(B, 2)]
            \<longrightarrow> col (zip cols (values_of p)) ca = PyNone \<and> col (zip cols (values_of p)) cb = PyFloat 2)"
proof -
  from assms(2) have "db' = both_upserts p db" by (simp add: ingest_Inr)
  then have "estimasi_harian db' = upsert_sql (values_of p) (estimasi_harian db)"
    by (simp add: both_upserts_def)
  with assms(1) have one: "rows_of_date (tanggal p) (estimasi_harian db') = [zip cols (values_of p)]"
    by (simp add: rows_of_date_upsert_sql)
  have cells: "list_all (\<lambda>(k, c). col (zip cols (values_of p)) c =
              (case map_of (estimasi p) k of Some x \<Rightarrow> PyFloat x | None \<Rightarrow> PyNone)) kolom_map"
    using col_excluded_area [of p] by (simp add: dict_get_def)
  have "col (zip cols (values_of p)) ca = PyNone \<and> col (zip cols (values_of p)) cb = PyFloat 2"
    if "(A, ca) \<in> set kolom_map" "(B, cb) \<in> set kolom_map" "A \<noteq> B" "estimasi p = [(B, 2)]"
  proof -
    from cells that(1) have "col (zip cols (values_of p)) ca =
        (case map_of (estimasi p) A of Some x \<Rightarrow> PyFloat x | None \<Rightarrow> PyNone)"
      by (auto simp: list_all_iff)
    moreover from cells that(2) have "col (zip cols (values_of p)) cb =
        (case map_of (estimasi p) B of Some x \<Rightarrow> PyFloat x | None \<Rightarrow> PyNone)"
      by (auto simp: list_all_iff)
    ultimately show ?thesis using that(3,4) by simp
  qed
  with one cells show ?thesis
    by (simp add: fst_excluded col_excluded_tanggal col_excluded_kota col_excluded_rata)
qed

theorem ingest_replaces_row_witness:
  "harian_ok (estimasi_harian (both_upserts payload_beji empty_db))
   \<and> rows_of_date 738886 (estimasi_harian (both_upserts payload_beji empty_db)) = [zip cols (values_of payload_beji)]
   \<and> col (zip cols (values_of payload_beji)) ''beji'' = PyFloat 1
   \<and> ingest no_faults (both_upserts payload_beji empty_db) payload_cinere
       = (Inr (ingest_ok 0), both_upserts payload_cinere (both_upserts payload_beji empty_db))
   \<and> rows_of_date 738886 (estimasi_harian (both_upserts payload_cinere (both_upserts payload_beji empty_db)))
       = [zip cols (values_of payload_cinere)]
   \<and> col (zip cols (values_of payload_cinere)) ''beji'' = PyNone
   \<and> col (zip cols (values_of payload_cinere)) ''cinere'' = PyFloat 2"
proof -
  have ok: "harian_ok (estimasi_harian (both_upserts payload_beji empty_db))"
    by (simp add: both_upserts_def empty_db_def harian_ok_upsert_sql harian_ok_empty)
  have ing: "ingest no_faults (both_upserts payload_beji empty_db) payload_cinere
       = (Inr (ingest_ok 0), both_upserts payload_cinere (both_upserts payload_beji empty_db))"
    by (simp add: ingest_no_faults meta_rows_of_def payload_cinere_def)
  have first: "rows_of_date 738886 (estimasi_harian (both_upserts payload_beji empty_db)) = [zip cols (values_of payload_beji)]"
    using rows_of_date_upsert_sql [OF harian_ok_empty, of payload_beji]
    by (simp add: both_upserts_def empty_db_def payload_beji_def)
  have b1: "col (zip cols (values_of payload_beji)) ''beji'' = PyFloat 1"
    by (simp add: excluded_eq col_def kolom_map_def dict_get_def payload_beji_def)
  have mem: "(''Beji'', ''beji'') \<in> set kolom_map" "(''Cinere'', ''cinere'') \<in> set kolom_map"
    by (simp_all add: kolom_map_def)
  have est: "estimasi payload_cinere = [(''Cinere'', 2)]" "tanggal payload_cinere = 738886"
    by (simp_all add: payload_cinere_def)
  from ingest_replaces_row [OF ok ing, of "''Beji''" "''beji''" "''Cinere''" "''cinere''"] mem est
    ok ing first b1
  show ?thesis by simp
qed

section \<open>Validation of the ingest body\<close>

lemma post_ingest_empty:
  "body_estimasi b = [] \<Longrightarrow> post_ingest e db b = (Detail 422 ''estimasi kosong'', db)"
  by (simp add: post_ingest_def parse_payload_def not_empty_def)

text \<open>
  C3. A body whose \<^verbatim>\<open>estimasi\<close> is empty is rejected by the validator: the answer is
  the client error 422, it is the same whatever the storage would have done (the
  environment is never consulted), and the database is the one the request found.
\<close>

theorem empty_estimasi_rejected:
  assumes "body_estimasi b = []"
  shows "parse_payload b = Inl (ValueError ''estimasi kosong'')
       \<and> post_ingest e db b = (Detail 422 ''estimasi kosong'', db)
       \<and> post_ingest e' db b = post_ingest e db b
       \<and> 400 \<le> status_code (fst (post_ingest e db b))
       \<and> status_code (fst (post_ingest e db b)) < 500"
  using assms by (simp add: post_ingest_empty parse_payload_def not_empty_def)

theorem empty_estimasi_rejected_witness:
  "body_estimasi \<lparr>body_tanggal = 738886, body_kota = None, body_estimasi = [],
      body_rata_rata_kota = 10, body_tanggal_fitur = None\<rparr> = []
   \<and> post_ingest no_faults empty_db \<lparr>body_tanggal = 738886, body_kota = None, body_estimasi = [],
      body_rata_rata_kota = 10, body_tanggal_fitur = None\<rparr> = (Detail 422 ''estimasi kosong'', empty_db)"
  using empty_estimasi_rejected [of "\<lparr>body_tanggal = 738886, body_kota = None, body_estimasi = [],
      body_rata_rata_kota = 10, body_tanggal_fitur = None\<rparr>" no_faults empty_db no_faults]
  by simp

section \<open>The answer of ingest and its transaction\<close>

lemma length_meta_rows_of:
  "payload_ok p \<Longrightarrow> length (meta_rows_of p) = card (area_keys p)"
proof (cases "tanggal_fitur p")
  case None
  then show ?thesis by (simp add: meta_rows_of_def area_keys_def)
next
  case (Some tf)
  assume "payload_ok p"
  with Some have "distinct (map fst tf)" by (simp add: payload_ok_def py_dict_def)
  then have "card (set (map fst tf)) = length (map fst tf)" by (rule distinct_card)
  with Some show ?thesis by (simp add: meta_rows_of_def area_keys_def)
qed

text \<open>
  C10. An ingest has two outcomes only: it returns and both statements are committed, or
  it raises status 500 and the database is the one it found. When the metadata statement
  raises after the daily upsert ran, the daily table is unchanged.
\<close>

theorem ingest_atomic:
  "(ingest e db p = (Inr (ingest_ok (length (meta_rows_of p))), both_upserts p db)
      \<or> (\<exists>msg. ingest e db p = (Inl (HTTPException 500 msg), db)))
   \<and> (connect_error e = None \<and> execute_error e 0 = None \<and> execute_error e 1 = Some msg
        \<and> meta_rows_of p \<noteq> []
      \<longrightarrow> ingest e db p = (Inl (HTTPException 500 msg), db))"
proof -
  have "ingest e db p = (Inl (HTTPException 500 msg), db)"
    if "connect_error e = None" "execute_error e 0 = None" "execute_error e 1 = Some msg"
       "meta_rows_of p \<noteq> []"
    using that
    by (simp add: ingest_def ingest_body_run_def get_conn_def cur_execute_def conn_exit_def)
  with ingest_cases [of e db p] show ?thesis by auto
qed

theorem ingest_atomic_witness:
  "connect_error metadata_fails = None \<and> execute_error metadata_fails 0 = None
   \<and> execute_error metadata_fails 1 = Some ''statement timeout''
   \<and> length (meta_rows_of payload_meta) = 2
   \<and> upsert_sql (values_of payload_meta) (estimasi_harian empty_db) = [zip cols (values_of payload_meta)]
   \<and> ingest metadata_fails empty_db payload_meta = (Inl (HTTPException 500 ''statement timeout''), empty_db)"
proof -
  have m: "length (meta_rows_of payload_meta) = 2" "meta_rows_of payload_meta \<noteq> []"
    by (simp_all add: meta_rows_of_def payload_meta_def)
  have f: "connect_error metadata_fails = None" "execute_error metadata_fails 0 = None"
    "execute_error metadata_fails 1 = Some ''statement timeout''"
    by (simp_all add: metadata_fails_def)
  from ingest_atomic [of metadata_fails empty_db payload_meta "''statement timeout''"] m f
  show ?thesis by (simp add: upsert_sql_def empty_db_def)
qed

section \<open>Storage errors\<close>

lemma read_scope_error:
  "first_error e 1 = Some msg \<Longrightarrow> \<exists>m. read_scope e db q = Inl (DatabaseError m)"
  by (auto simp: read_scope_def get_conn_def cur_query_def first_error_def
      split: option.splits sum.splits if_splits)

lemma read_scope_error_text:
  "first_error e 1 = Some msg \<Longrightarrow> q db = Inr v \<Longrightarrow> read_scope e db q = Inl (DatabaseError msg)"
  by (auto simp: read_scope_def get_conn_def cur_query_def first_error_def
      split: option.splits sum.splits if_splits)

text \<open>
  A storage error in \<^verbatim>\<open>latest\<close> is not caught by the handler: it leaves as the driver's
  exception, and the answer is the framework's fixed text, not the error text.
\<close>

theorem read_error_counterexample:
  "first_error refused 1 = Some ''connection refused''
   \<and> latest refused empty_db = Inl (DatabaseError ''connection refused'')
   \<and> get_latest refused empty_db = PlainText 500 ''Internal Server Error''"
  by (simp add: get_latest_def latest_def read_scope_def get_conn_def refused_def first_error_def)

text \<open>
  C5, as the code has it. A storage error met by ingest, at whichever point of its scope
  (connecting, the daily statement, the metadata statement, committing), is caught in the
  handler and answered with status 500 and the raw error text as detail, the database
  left as it was. \<^verbatim>\<open>latest\<close>, \<^verbatim>\<open>history\<close> and \<^verbatim>\<open>stats\<close> do not catch it: the
  driver's exception leaves the handler with its text and the framework answers with
  status 500 and the fixed text \<^verbatim>\<open>Internal Server Error\<close>.
\<close>

theorem storage_errors:
  "(first_error e (ingest_statements p) = Some msg \<longrightarrow>
      ingest e db p = (Inl (HTTPException 500 msg), db)
      \<and> respond (fst (ingest e db p)) = Detail 500 msg)
   \<and> (first_error e' 1 = Some msg' \<longrightarrow>
      latest e' db = Inl (DatabaseError msg')
      \<and> get_latest e' db = PlainText 500 ''Internal Server Error''
      \<and> stats fl e' db = Inl (DatabaseError msg')
      \<and> get_stats fl e' db = PlainText 500 ''Internal Server Error''
      \<and> (\<exists>m. history e' db limit = Inl (DatabaseError m))
      \<and> (pg_limit limit = Inr n \<longrightarrow> history e' db limit = Inl (DatabaseError msg'))
      \<and> get_history e' db query = PlainText 500 ''Internal Server Error'')"
proof -
  have i: "ingest e db p = (Inl (HTTPException 500 msg), db)"
    if "first_error e (ingest_statements p) = Some msg"
    using that ingest_cases [of e db p] by auto
  have r: "latest e' db = Inl (DatabaseError msg')
      \<and> get_latest e' db = PlainText 500 ''Internal Server Error''
      \<and> stats fl e' db = Inl (DatabaseError msg')
      \<and> get_stats fl e' db = PlainText 500 ''Internal Server Error''
      \<and> (\<exists>m. history e' db limit = Inl (DatabaseError m))
      \<and> (pg_limit limit = Inr n \<longrightarrow> history e' db limit = Inl (DatabaseError msg'))
      \<and> get_history e' db query = PlainText 500 ''Internal Server Error''"
    if f: "first_error e' 1 = Some msg'"
  proof -
    have l: "latest e' db = Inl (DatabaseError msg')"
      unfolding latest_def using f by (rule read_scope_error_text) (simp add: latest_sql_def)
    have s: "stats fl e' db = Inl (DatabaseError msg')"
      unfolding stats_def using f by (rule read_scope_error_text) (simp add: stats_sql_def Let_def)
    from read_scope_error [OF f] obtain m where h: "history e' db limit = Inl (DatabaseError m)"
      unfolding history_def by blast
    have hl: "history e' db limit = Inl (DatabaseError msg')" if "pg_limit limit = Inr n"
      unfolding history_def using f
      by (rule read_scope_error_text) (simp add: history_sql_def that)
    from read_scope_error [OF f]
    obtain m' where h': "history e' db (case query of None \<Rightarrow> 30 | Some n \<Rightarrow> n) = Inl (DatabaseError m')"
      unfolding history_def by blast
    from l s h hl h' show ?thesis by (simp add: get_latest_def get_stats_def get_history_def)
  qed
  from i r show ?thesis by simp
qed

theorem storage_errors_witness:
  "first_error metadata_fails (ingest_statements payload_meta) = Some ''statement timeout''
   \<and> first_error metadata_fails 1 = None
   \<and> ingest metadata_fails empty_db payload_meta
       = (Inl (HTTPException 500 ''statement timeout''), empty_db)
   \<and> respond (fst (ingest metadata_fails empty_db payload_meta)) = Detail 500 ''statement timeout''
   \<and> first_error refused 1 = Some ''connection refused''
   \<and> pg_limit 30 = Inr 30
   \<and> latest refused empty_db = Inl (DatabaseError ''connection refused'')
   \<and> stats (\<lambda>x. x) refused empty_db = Inl (DatabaseError ''connection refused'')
   \<and> history refused empty_db 30 = Inl (DatabaseError ''connection refused'')
   \<and> get_history refused empty_db None = PlainText 500 ''Internal Server Error''"
proof -
  have m: "meta_rows_of payload_meta \<noteq> []" by (simp add: meta_rows_of_def payload_meta_def)
  have a: "first_error metadata_fails (ingest_statements payload_meta) = Some ''statement timeout''"
    using m by (simp add: first_error_def metadata_fails_def ingest_statements_def upt_conv_Cons)
  have a': "first_error metadata_fails 1 = None"
    by (simp add: first_error_def metadata_fails_def)
  have b: "first_error refused 1 = Some ''connection refused''"
    by (simp add: first_error_def refused_def)
  have c: "pg_limit 30 = Inr 30" by (simp add: pg_limit_def)
  from storage_errors [of metadata_fails payload_meta "''statement timeout''" empty_db refused
      "''connection refused''" "\<lambda>x. x" 30 30 None] a a' b c
  show ?thesis by simp
qed

section \<open>The batched upsert of the metadata\<close>

lemma fold_table_ok:
  "table_ok key upd t \<Longrightarrow> list_all (\<lambda>ex. map fst ex = key @ upd) exs \<Longrightarrow> distinct (key @ upd) \<Longrightarrow>
   table_ok key upd (fold (insert_on_conflict key upd) exs t)"
  by (induction exs arbitrary: t) (simp_all add: table_ok_insert_on_conflict)

lemma fold_filter_other:
  "set key \<inter> set upd = {} \<Longrightarrow> k \<notin> key_of key ` set exs \<Longrightarrow>
   filter (\<lambda>r. key_of key r = k) (fold (insert_on_conflict key upd) exs t) = filter (\<lambda>r. key_of key r = k) t"
  by (induction exs arbitrary: t) (auto simp: filter_other_insert_on_conflict)

lemma fold_filter_key:
  assumes "table_ok key upd t" "list_all (\<lambda>ex. map fst ex = key @ upd) exs" "distinct (key @ upd)"
    and "distinct (map (key_of key) exs)" "ex \<in> set exs"
  shows "filter (\<lambda>r. key_of key r = key_of key ex) (fold (insert_on_conflict key upd) exs t) = [ex]"
  using assms
proof (induction exs arbitrary: t)
  case Nil
  then show ?case by simp
next
  case (Cons x xs)
  from Cons.prems(3) have dj: "set key \<inter> set upd = {}" by auto
  from Cons.prems(1,2,3) have ok': "table_ok key upd (insert_on_conflict key upd x t)"
    by (simp add: table_ok_insert_on_conflict)
  show ?case
  proof (cases "ex \<in> set xs")
    case True
    with Cons.IH[OF ok'] Cons.prems show ?thesis by simp
  next
    case False
    with Cons.prems(5) have ex: "ex = x" by simp
    from Cons.prems(4) have "key_of key x \<notin> key_of key ` set xs" by simp
    with dj have "filter (\<lambda>r. key_of key r = key_of key x) (fold (insert_on_conflict key upd) xs (insert_on_conflict key upd x t))
        = filter (\<lambda>r. key_of key r = key_of key x) (insert_on_conflict key upd x t)"
      by (rule fold_filter_other)
    also have "\<dots> = [x]"
      using Cons.prems(1,2,3) by (simp add: filter_key_insert_on_conflict)
    finally show ?thesis using ex by simp
  qed
qed




lemma meta_excluded_eq:
  "meta_excluded d (kec, meta) =
     [(''tanggal'', PyDate d), (''kecamatan'', PyStr kec), (''fitur'', json_dumps []),
      (''tanggal_fitur'', json_dumps meta)]"
  by (simp add: meta_excluded_def meta_cols_def)

lemma fst_meta_excluded: "map fst (meta_excluded d km) = [''tanggal'', ''kecamatan'', ''fitur'', ''tanggal_fitur'']"
  by (cases km) (simp add: meta_excluded_eq)

lemma key_of_meta_excluded:
  "key_of [''tanggal'', ''kecamatan''] (meta_excluded d km) = [PyDate d, PyStr (fst km)]"
  by (cases km) (simp add: meta_excluded_eq key_of_def col_def)

lemma execute_values_fold:
  "execute_values (meta_rows_of p) t =
     fold (insert_on_conflict [''tanggal'', ''kecamatan''] [''fitur'', ''tanggal_fitur''])
       (map (meta_excluded (tanggal p)) (case tanggal_fitur p of None \<Rightarrow> [] | Some tf \<Rightarrow> tf)) t"
proof -
  have "fold upsert_meta (map (\<lambda>(kec, meta). [PyDate d, PyStr kec, json_dumps [], json_dumps meta]) tf) t
      = fold (insert_on_conflict [''tanggal'', ''kecamatan''] [''fitur'', ''tanggal_fitur''])
          (map (meta_excluded d) tf) t" for d and tf :: "(string \<times> (string \<times> string) list) list"
    by (induction tf arbitrary: t) (simp_all add: upsert_meta_def meta_excluded_def case_prod_unfold)
  then show ?thesis
    by (simp add: execute_values_def meta_rows_of_def split: option.splits)
qed

lemma rows_of_area_key:
  "rows_of_area d a t = filter (\<lambda>r. key_of [''tanggal'', ''kecamatan''] r = [PyDate d, PyStr a]) t"
  by (simp add: rows_of_area_def key_of_def)

lemma distinct_meta_keys:
  "distinct (map fst tf) \<Longrightarrow> distinct (map (key_of [''tanggal'', ''kecamatan'']) (map (meta_excluded d) tf))"
  by (induction tf) (auto simp: key_of_meta_excluded)

lemma metadata_ok_execute_values:
  assumes "metadata_ok t"
  shows "metadata_ok (execute_values (meta_rows_of p) t)"
  unfolding metadata_ok_def execute_values_fold
  using assms [unfolded metadata_ok_def]
  by (rule fold_table_ok) (simp_all add: list_all_iff fst_meta_excluded)

lemma rows_of_area_execute_values:
  assumes "metadata_ok t" "tanggal_fitur p = Some tf" "py_dict tf" "(kec, meta) \<in> set tf"
  shows "rows_of_area (tanggal p) kec (execute_values (meta_rows_of p) t) = [meta_excluded (tanggal p) (kec, meta)]"
proof -
  have "filter (\<lambda>r. key_of [''tanggal'', ''kecamatan''] r
                  = key_of [''tanggal'', ''kecamatan''] (meta_excluded (tanggal p) (kec, meta)))
          (fold (insert_on_conflict [''tanggal'', ''kecamatan''] [''fitur'', ''tanggal_fitur''])
             (map (meta_excluded (tanggal p)) tf) t) = [meta_excluded (tanggal p) (kec, meta)]"
    using assms(1) [unfolded metadata_ok_def]
  proof (rule fold_filter_key)
    show "list_all (\<lambda>ex. map fst ex = [''tanggal'', ''kecamatan''] @ [''fitur'', ''tanggal_fitur''])
            (map (meta_excluded (tanggal p)) tf)"
      by (simp add: list_all_iff fst_meta_excluded)
    show "distinct ([''tanggal'', ''kecamatan''] @ [''fitur'', ''tanggal_fitur''])" by simp
    show "distinct (map (key_of [''tanggal'', ''kecamatan'']) (map (meta_excluded (tanggal p)) tf))"
      using assms(3) unfolding py_dict_def by (rule distinct_meta_keys)
    show "meta_excluded (tanggal p) (kec, meta) \<in> set (map (meta_excluded (tanggal p)) tf)"
      using assms(4) by simp
  qed
  with assms(2) show ?thesis
    by (simp add: rows_of_area_key execute_values_fold key_of_meta_excluded)
qed



lemma db_ok_both_upserts: "db_ok db \<Longrightarrow> db_ok (both_upserts p db)"
  by (simp add: db_ok_def both_upserts_def harian_ok_upsert_sql metadata_ok_execute_values)

lemma db_ok_empty: "db_ok empty_db"
  by (simp add: db_ok_def empty_db_def harian_ok_empty metadata_ok_def table_ok_def)

lemma db_ok_ingest: "db_ok db \<Longrightarrow> db_ok (snd (ingest e db p))"
  using ingest_cases [of e db p] by (auto simp: db_ok_both_upserts)

lemma map_of_filter_keys:
  "k \<in> S \<Longrightarrow> map_of (filter (\<lambda>(k, x). k \<in> S) d) k = map_of d k"
  by (induction d) auto

lemma values_of_known_only: "values_of (p\<lparr>estimasi := known_only (estimasi p)\<rparr>) = values_of p"
  by (simp add: values_of_def dict_get_def known_only_def map_of_filter_keys)

lemma ingest_values:
  assumes "values_of p' = values_of p" "tanggal_fitur p' = tanggal_fitur p" "tanggal p' = tanggal p"
  shows "ingest e db p' = ingest e db p"
proof -
  have m: "meta_rows_of p' = meta_rows_of p" unfolding meta_rows_of_def assms(2,3) by (rule refl)
  show ?thesis unfolding ingest_def ingest_body_run_def m assms(1) by (rule refl)
qed



lemma ingest_no_error:
  "first_error e (ingest_statements p) = None \<Longrightarrow>
   ingest e db p = (Inr (ingest_ok (length (meta_rows_of p))), both_upserts p db)"
  using ingest_cases [of e db p] by auto

lemma rows_of_area_all:
  assumes "metadata_ok t" "payload_ok p"
  shows "list_all (\<lambda>(kec, meta). rows_of_area (tanggal p) kec (execute_values (meta_rows_of p) t)
                      = [meta_excluded (tanggal p) (kec, meta)])
           (case tanggal_fitur p of None \<Rightarrow> [] | Some tf \<Rightarrow> tf)"
proof (cases "tanggal_fitur p")
  case None
  then show ?thesis by simp
next
  case (Some tf)
  with assms(2) have pd: "py_dict tf" by (simp add: payload_ok_def)
  have "rows_of_area (tanggal p) kec (execute_values (meta_rows_of p) t)
          = [meta_excluded (tanggal p) (kec, meta)]" if "(kec, meta) \<in> set tf" for kec meta
    using assms(1) Some pd that by (rule rows_of_area_execute_values)
  with Some show ?thesis by (auto simp: list_all_iff)
qed

lemma rows_of_area_other:
  assumes "d \<noteq> tanggal p \<or> a \<notin> area_keys p"
  shows "rows_of_area d a (execute_values (meta_rows_of p) t) = rows_of_area d a t"
proof -
  let ?items = "case tanggal_fitur p of None \<Rightarrow> [] | Some tf \<Rightarrow> tf"
  have k: "area_keys p = fst ` set ?items" by (simp add: area_keys_def split: option.splits)
  have "[PyDate d, PyStr a] \<notin> key_of [''tanggal'', ''kecamatan''] ` set (map (meta_excluded (tanggal p)) ?items)"
  proof
    assume "[PyDate d, PyStr a] \<in> key_of [''tanggal'', ''kecamatan''] ` set (map (meta_excluded (tanggal p)) ?items)"
    then obtain km where "km \<in> set ?items"
      and "[PyDate d, PyStr a] = key_of [''tanggal'', ''kecamatan''] (meta_excluded (tanggal p) km)"
      by auto
    then have "d = tanggal p" "a \<in> fst ` set ?items" by (auto simp: key_of_meta_excluded)
    with assms k show False by simp
  qed
  with fold_filter_other [of "[''tanggal'', ''kecamatan'']" "[''fitur'', ''tanggal_fitur'']"
      "[PyDate d, PyStr a]" "map (meta_excluded (tanggal p)) ?items" t]
  show ?thesis by (simp add: rows_of_area_key execute_values_fold)
qed

lemma length_filter_keys:
  assumes "distinct (map f t)" "S \<subseteq> f ` set t"
  shows "length (filter (\<lambda>r. f r \<in> S) t) = card S"
proof -
  have "distinct (map f (filter (\<lambda>r. f r \<in> S) t))" using assms(1) by (rule distinct_map_filter)
  then have "card (set (map f (filter (\<lambda>r. f r \<in> S) t))) = length (map f (filter (\<lambda>r. f r \<in> S) t))"
    by (rule distinct_card)
  moreover have "set (map f (filter (\<lambda>r. f r \<in> S) t)) = S" using assms(2) by auto
  ultimately show ?thesis by simp
qed

lemma rows_of_areas_key:
  "rows_of_areas d A t
     = filter (\<lambda>r. key_of [''tanggal'', ''kecamatan''] r \<in> (\<lambda>a. [PyDate d, PyStr a]) ` A) t"
  unfolding rows_of_areas_def by (rule filter_cong) (auto simp: key_of_def)

lemma length_rows_of_areas:
  assumes "metadata_ok t" "payload_ok p"
  shows "length (rows_of_areas (tanggal p) (area_keys p) (execute_values (meta_rows_of p) t))
           = card (area_keys p)"
proof -
  let ?t = "execute_values (meta_rows_of p) t"
  let ?S = "(\<lambda>a. [PyDate (tanggal p), PyStr a]) ` area_keys p"
  from assms(1) have "metadata_ok ?t" by (rule metadata_ok_execute_values)
  then have d: "distinct (map (key_of [''tanggal'', ''kecamatan'']) ?t)"
    by (simp add: metadata_ok_def table_ok_def)
  have sub: "?S \<subseteq> key_of [''tanggal'', ''kecamatan''] ` set ?t"
  proof
    fix k assume "k \<in> ?S"
    then obtain a where a: "a \<in> area_keys p" and k: "k = [PyDate (tanggal p), PyStr a]" by auto
    from a obtain tf meta where tf: "tanggal_fitur p = Some tf" and m: "(a, meta) \<in> set tf"
      by (auto simp: area_keys_def split: option.splits)
    from assms(2) tf have "py_dict tf" by (simp add: payload_ok_def)
    with assms(1) tf m have "rows_of_area (tanggal p) a ?t = [meta_excluded (tanggal p) (a, meta)]"
      by (simp add: rows_of_area_execute_values)
    then have "meta_excluded (tanggal p) (a, meta) \<in> set (rows_of_area (tanggal p) a ?t)" by simp
    then have "meta_excluded (tanggal p) (a, meta) \<in> set ?t" by (simp add: rows_of_area_def)
    then have "key_of [''tanggal'', ''kecamatan''] (meta_excluded (tanggal p) (a, meta))
        \<in> key_of [''tanggal'', ''kecamatan''] ` set ?t" by (rule imageI)
    with k show "k \<in> key_of [''tanggal'', ''kecamatan''] ` set ?t" by (simp add: key_of_meta_excluded)
  qed
  have "inj_on (\<lambda>a. [PyDate (tanggal p), PyStr a]) (area_keys p)" by (simp add: inj_on_def)
  then have c: "card ?S = card (area_keys p)" by (rule card_image)
  from length_filter_keys [OF d sub] c show ?thesis by (simp add: rows_of_areas_key)
qed

text \<open>
  C4. Names of \<^verbatim>\<open>estimasi\<close> outside the eleven play no part, in any payload, with or
  without \<^verbatim>\<open>tanggal_fitur\<close>: dropping them changes neither the answer nor the database.
  They are no error: when the storage raises nothing the ingest returns, the daily table
  holds for the date the one row of fourteen columns with the values of the recognised
  names, and every entry of \<^verbatim>\<open>tanggal_fitur\<close>, whatever its name, has exactly one
  metadata row under its date and name, carrying the entry's map.
\<close>

theorem unknown_areas:
  assumes "db_ok db" and "payload_ok p" and "first_error e (ingest_statements p) = None"
  shows "ingest e' db' (q\<lparr>estimasi := known_only (estimasi q)\<rparr>) = ingest e' db' q
       \<and> fst (ingest e db p) = Inr (ingest_ok (length (meta_rows_of p)))
       \<and> rows_of_date (tanggal p) (estimasi_harian (snd (ingest e db p))) = [zip cols (values_of p)]
       \<and> map fst (zip cols (values_of p)) = cols
       \<and> list_all (\<lambda>(k, c). col (zip cols (values_of p)) c = dict_get (estimasi p) k) kolom_map
       \<and> list_all (\<lambda>(kec, meta). rows_of_area (tanggal p) kec (estimasi_metadata (snd (ingest e db p)))
                      = [meta_excluded (tanggal p) (kec, meta)])
            (case tanggal_fitur p of None \<Rightarrow> [] | Some tf \<Rightarrow> tf)"
proof -
  from assms(3) have i: "ingest e db p = (Inr (ingest_ok (length (meta_rows_of p))), both_upserts p db)"
    by (rule ingest_no_error)
  from assms(1) have h: "harian_ok (estimasi_harian db)" and m: "metadata_ok (estimasi_metadata db)"
    by (simp_all add: db_ok_def)
  have a: "ingest e' db' (q\<lparr>estimasi := known_only (estimasi q)\<rparr>) = ingest e' db' q"
    by (rule ingest_values) (simp_all add: values_of_known_only)
  from h have b: "rows_of_date (tanggal p) (estimasi_harian (snd (ingest e db p))) = [zip cols (values_of p)]"
    by (simp add: i both_upserts_def rows_of_date_upsert_sql)
  have c: "list_all (\<lambda>(kec, meta). rows_of_area (tanggal p) kec (estimasi_metadata (snd (ingest e db p)))
                      = [meta_excluded (tanggal p) (kec, meta)])
            (case tanggal_fitur p of None \<Rightarrow> [] | Some tf \<Rightarrow> tf)"
    using rows_of_area_all [OF m assms(2)] by (simp add: i both_upserts_def)
  from a b c col_excluded_area [of p] show ?thesis by (simp add: fst_excluded i)
qed

theorem unknown_areas_witness:
  "db_ok empty_db \<and> payload_ok payload_meta
   \<and> first_error no_faults (ingest_statements payload_meta) = None
   \<and> tanggal_fitur payload_unknown = None
   \<and> known_only (estimasi payload_unknown) = [(''Limo'', 7)]
   \<and> ingest no_faults empty_db (payload_unknown\<lparr>estimasi := [(''Limo'', 7)]\<rparr>)
       = ingest no_faults empty_db payload_unknown
   \<and> fst (ingest no_faults empty_db payload_unknown) = Inr (ingest_ok 0)
   \<and> known_only (estimasi payload_meta) = [(''Beji'', 21)]
   \<and> fst (ingest no_faults empty_db payload_meta) = Inr (ingest_ok 2)
   \<and> col (zip cols (values_of payload_meta)) ''beji'' = PyFloat 21
   \<and> rows_of_area 738887 ''Margonda'' (estimasi_metadata (snd (ingest no_faults empty_db payload_meta)))
       = [[(''tanggal'', PyDate 738887), (''kecamatan'', PyStr ''Margonda''), (''fitur'', PyDict []),
           (''tanggal_fitur'', PyDict [])]]
   \<and> rows_of_area 738887 ''Beji'' (estimasi_metadata (snd (ingest no_faults empty_db payload_meta)))
       = [[(''tanggal'', PyDate 738887), (''kecamatan'', PyStr ''Beji''), (''fitur'', PyDict []),
           (''tanggal_fitur'', PyDict [(''aod'', PyStr ''2024-01-01'')])]]"
proof -
  have pk: "payload_ok payload_meta" by (simp add: payload_ok_def payload_meta_def py_dict_def)
  have n: "length (meta_rows_of payload_meta) = 2" by (simp add: meta_rows_of_def payload_meta_def)
  have tf: "tanggal_fitur payload_meta = Some [(''Beji'', [(''aod'', ''2024-01-01'')]), (''Margonda'', [])]"
    and t: "tanggal payload_meta = 738887"
    by (simp_all add: payload_meta_def)
  have u: "tanggal_fitur payload_unknown = None" "length (meta_rows_of payload_unknown) = 0"
    by (simp_all add: payload_unknown_def meta_rows_of_def)
  have k: "known_only (estimasi payload_meta) = [(''Beji'', 21)]"
    by (simp add: known_only_def payload_meta_def kolom_map_def)
  have k': "known_only (estimasi payload_unknown) = [(''Limo'', 7)]"
    by (simp add: known_only_def payload_unknown_def kolom_map_def)
  have iu: "fst (ingest no_faults empty_db payload_unknown) = Inr (ingest_ok 0)"
    by (simp add: ingest_no_faults u)
  have b: "col (zip cols (values_of payload_meta)) ''beji'' = PyFloat 21"
    by (simp add: excluded_eq col_def kolom_map_def dict_get_def payload_meta_def)
  note th = unknown_areas [OF db_ok_empty pk first_error_no_faults, of no_faults empty_db payload_unknown]
  from th have 1: "ingest no_faults empty_db (payload_unknown\<lparr>estimasi := known_only (estimasi payload_unknown)\<rparr>)
       = ingest no_faults empty_db payload_unknown" by blast
  from th have 2: "fst (ingest no_faults empty_db payload_meta) = Inr (ingest_ok (length (meta_rows_of payload_meta)))"
    by blast
  from th have 3: "list_all (\<lambda>(kec, meta). rows_of_area (tanggal payload_meta) kec
                      (estimasi_metadata (snd (ingest no_faults empty_db payload_meta)))
                      = [meta_excluded (tanggal payload_meta) (kec, meta)])
            (case tanggal_fitur payload_meta of None \<Rightarrow> [] | Some tf \<Rightarrow> tf)" by blast
  from 3 have 4: "rows_of_area 738887 ''Margonda'' (estimasi_metadata (snd (ingest no_faults empty_db payload_meta)))
       = [[(''tanggal'', PyDate 738887), (''kecamatan'', PyStr ''Margonda''), (''fitur'', PyDict []),
           (''tanggal_fitur'', PyDict [])]]"
    and 5: "rows_of_area 738887 ''Beji'' (estimasi_metadata (snd (ingest no_faults empty_db payload_meta)))
       = [[(''tanggal'', PyDate 738887), (''kecamatan'', PyStr ''Beji''), (''fitur'', PyDict []),
           (''tanggal_fitur'', PyDict [(''aod'', PyStr ''2024-01-01'')])]]"
    by (simp_all add: tf t meta_excluded_eq json_dumps_def)
  from 1 2 4 5 pk k k' u iu b n db_ok_empty show ?thesis
    by (simp add: first_error_no_faults)
qed

text \<open>
  C9. A successful ingest returns the dictionary with \<^verbatim>\<open>status\<close> ok, \<^verbatim>\<open>upserted\<close>
  \<^verbatim>\<open>estimasi_harian\<close> and \<^verbatim>\<open>meta_rows\<close> the number of keys of the payload's
  \<^verbatim>\<open>tanggal_fitur\<close>, 0 when the map is absent or empty; FastAPI answers it with status
  200. That number is the number of metadata rows written: on a metadata table in order,
  the table holds after the ingest exactly that many rows under the payload's date and
  the names of the map, one for each entry and carrying the entry, and its rows under any
  other date or name are the rows it held before.
\<close>

theorem ingest_response:
  assumes "ingest e db p = (Inr v, db')" and "payload_ok p"
  shows "v = PyDict [(''status'', PyStr ''ok''), (''upserted'', PyStr ''estimasi_harian''),
                     (''meta_rows'', PyInt (int (card (area_keys p))))]
       \<and> card (area_keys p) = length (meta_rows_of p)
       \<and> (tanggal_fitur p = None \<or> tanggal_fitur p = Some [] \<longrightarrow> card (area_keys p) = 0)
       \<and> respond (fst (ingest e db p)) = Json 200 v
       \<and> (metadata_ok (estimasi_metadata db) \<longrightarrow>
            length (rows_of_areas (tanggal p) (area_keys p) (estimasi_metadata db')) = card (area_keys p)
            \<and> list_all (\<lambda>(kec, meta). rows_of_area (tanggal p) kec (estimasi_metadata db')
                           = [meta_excluded (tanggal p) (kec, meta)])
                 (case tanggal_fitur p of None \<Rightarrow> [] | Some tf \<Rightarrow> tf))
       \<and> (d \<noteq> tanggal p \<or> a \<notin> area_keys p \<longrightarrow>
            rows_of_area d a (estimasi_metadata db') = rows_of_area d a (estimasi_metadata db))"
proof -
  from assms(1) have v: "v = ingest_ok (length (meta_rows_of p))" and d: "db' = both_upserts p db"
    by (simp_all add: ingest_Inr)
  have z: "tanggal_fitur p = None \<or> tanggal_fitur p = Some [] \<longrightarrow> card (area_keys p) = 0"
    by (auto simp: area_keys_def)
  have w: "length (rows_of_areas (tanggal p) (area_keys p) (estimasi_metadata db')) = card (area_keys p)
            \<and> list_all (\<lambda>(kec, meta). rows_of_area (tanggal p) kec (estimasi_metadata db')
                           = [meta_excluded (tanggal p) (kec, meta)])
                 (case tanggal_fitur p of None \<Rightarrow> [] | Some tf \<Rightarrow> tf)"
    if "metadata_ok (estimasi_metadata db)"
    using length_rows_of_areas [OF that assms(2)] rows_of_area_all [OF that assms(2)]
    by (simp add: d both_upserts_def)
  have o: "rows_of_area d a (estimasi_metadata db') = rows_of_area d a (estimasi_metadata db)"
    if "d \<noteq> tanggal p \<or> a \<notin> area_keys p"
    using rows_of_area_other [OF that] by (simp add: d both_upserts_def)
  from v z w o assms show ?thesis by (simp add: length_meta_rows_of ingest_ok_def)
qed

theorem ingest_response_witness:
  "payload_ok payload_meta \<and> metadata_ok (estimasi_metadata empty_db)
   \<and> ingest no_faults empty_db payload_meta = (Inr (ingest_ok 2), both_upserts payload_meta empty_db)
   \<and> card (area_keys payload_meta) = 2
   \<and> ingest_ok 2 = PyDict [(''status'', PyStr ''ok''), (''upserted'', PyStr ''estimasi_harian''),
                            (''meta_rows'', PyInt 2)]
   \<and> respond (fst (ingest no_faults empty_db payload_meta)) = Json 200 (ingest_ok 2)
   \<and> length (rows_of_areas 738887 {''Beji'', ''Margonda''}
               (estimasi_metadata (both_upserts payload_meta empty_db))) = 2
   \<and> rows_of_area 738887 ''Limo'' (estimasi_metadata (both_upserts payload_meta empty_db)) = []"
proof -
  have ok: "payload_ok payload_meta"
    by (simp add: payload_ok_def payload_meta_def py_dict_def)
  have mo: "metadata_ok (estimasi_metadata empty_db)"
    using db_ok_empty by (simp add: db_ok_def)
  have ing: "ingest no_faults empty_db payload_meta = (Inr (ingest_ok 2), both_upserts payload_meta empty_db)"
    by (simp add: ingest_no_faults meta_rows_of_def payload_meta_def numeral_2_eq_2)
  have ak: "area_keys payload_meta = {''Beji'', ''Margonda''}" and t: "tanggal payload_meta = 738887"
    by (simp_all add: area_keys_def payload_meta_def)
  have c: "card (area_keys payload_meta) = 2" by (simp add: ak)
  have e: "rows_of_area 738887 ''Limo'' (estimasi_metadata empty_db) = []"
    by (simp add: rows_of_area_def empty_db_def)
  note th = ingest_response [OF ing ok, of 738887 "''Limo''"]
  from th mo have 1: "length (rows_of_areas (tanggal payload_meta) (area_keys payload_meta)
               (estimasi_metadata (both_upserts payload_meta empty_db))) = card (area_keys payload_meta)"
    by blast
  from th have 2: "respond (fst (ingest no_faults empty_db payload_meta)) = Json 200 (ingest_ok 2)"
    by blast
  have "''Limo'' \<notin> area_keys payload_meta" by (simp add: ak)
  with th have 3: "rows_of_area 738887 ''Limo'' (estimasi_metadata (both_upserts payload_meta empty_db))
      = rows_of_area 738887 ''Limo'' (estimasi_metadata empty_db)" by blast
  from 1 2 3 ok mo ing c e ak t show ?thesis by (simp add: ingest_ok_def)
qed

section \<open>The query handlers on a table in order\<close>

lemma tanggal_key_col: "tanggal_key r = Some d \<Longrightarrow> col r ''tanggal'' = PyDate d"
  by (auto simp: tanggal_key_def split: pyval.splits)

lemma distinct_tanggal_key:
  assumes "harian_ok t"
  shows "distinct (map tanggal_key t)"
proof -
  from assms have d: "distinct (map (key_of [''tanggal'']) t)"
    and n: "\<And>r. r \<in> set t \<Longrightarrow> tanggal_key r \<noteq> None"
    by (auto simp: harian_ok_def table_ok_def list_all_iff)
  from d have dt: "distinct t" and inj: "inj_on (key_of [''tanggal'']) (set t)"
    by (simp_all add: distinct_map)
  have "inj_on tanggal_key (set t)"
  proof (rule inj_onI)
    fix r r' assume r: "r \<in> set t" and r': "r' \<in> set t" and eq: "tanggal_key r = tanggal_key r'"
    from n[OF r] obtain d where "tanggal_key r = Some d" by auto
    with eq have "col r ''tanggal'' = PyDate d" "col r' ''tanggal'' = PyDate d"
      by (simp_all add: tanggal_key_col)
    then have "key_of [''tanggal''] r = key_of [''tanggal''] r'" by (simp add: key_of_def)
    with inj r r' show "r = r'" by (meson inj_onD)
  qed
  with dt show ?thesis by (simp add: distinct_map)
qed

lemma set_order_by: "set (order_by_tanggal_desc t) = set t"
  by (simp add: order_by_tanggal_desc_def)

lemma length_order_by: "length (order_by_tanggal_desc t) = length t"
  by (simp add: order_by_tanggal_desc_def)

lemma order_by_Nil: "order_by_tanggal_desc [] = []"
  by (simp add: order_by_tanggal_desc_def)

lemma sorted_order_by:
  assumes "harian_ok t"
  shows "sorted_wrt (\<lambda>a b. tanggal_key b < tanggal_key a) (order_by_tanggal_desc t)"
proof -
  have "mset (map tanggal_key (sort_key tanggal_key t)) = mset (map tanggal_key t)" by simp
  then have "distinct (map tanggal_key (sort_key tanggal_key t)) = distinct (map tanggal_key t)"
    by (rule mset_eq_imp_distinct_iff)
  with distinct_tanggal_key[OF assms] have "distinct (map tanggal_key (sort_key tanggal_key t))" by simp
  moreover have "sorted (map tanggal_key (sort_key tanggal_key t))" by (rule sorted_sort_key)
  ultimately have "sorted_wrt (<) (map tanggal_key (sort_key tanggal_key t))"
    by (simp add: strict_sorted_iff)
  then have "sorted_wrt (\<lambda>a b. tanggal_key a < tanggal_key b) (sort_key tanggal_key t)"
    by (simp add: sorted_wrt_map)
  then show ?thesis by (simp add: order_by_tanggal_desc_def sorted_wrt_rev)
qed

lemma zip_project:
  assumes "map fst r = cs" "distinct cs"
  shows "zip cs (map (col r) cs) = r"
proof (rule row_eqI)
  show "map fst (zip cs (map (col r) cs)) = map fst r" using assms by simp
  show "distinct (map fst (zip cs (map (col r) cs)))" using assms by simp
  fix c assume "c \<in> fst ` set (zip cs (map (col r) cs))"
  then have "c \<in> set cs" by (metis list.set_map map_fst_zip length_map)
  then show "col (zip cs (map (col r) cs)) c = col r c"
    by (simp add: col_def[of "zip cs (map (col r) cs)"] map_of_zip_map)
qed

lemma read_scope_ok: "first_error e 1 = None \<Longrightarrow> read_scope e db q = (case q db of Inl msg \<Rightarrow> Inl (DatabaseError msg) | Inr v \<Rightarrow> Inr v)"
  by (auto simp: read_scope_def get_conn_def cur_query_def first_error_def
      split: option.splits sum.splits if_splits)

lemma harian_ok_cols: "harian_ok t \<Longrightarrow> r \<in> set t \<Longrightarrow> map fst r = cols"
  by (auto simp: harian_ok_def table_ok_def list_all_iff cols_key_upd)

lemma history_cols_cols: "history_cols = cols"
  by (simp add: cols_eq history_cols_def)

lemma pg_limit_ok: "0 \<le> n \<Longrightarrow> n \<le> 9223372036854775807 \<Longrightarrow> pg_limit n = Inr (nat n)"
  by (simp add: pg_limit_def)

lemma project_rows:
  assumes "harian_ok t" "set rs \<subseteq> set t"
  shows "map (\<lambda>r. dict_zip history_cols (map (col r) history_cols)) rs = map PyDict rs"
proof (rule map_cong[OF refl])
  fix r assume "r \<in> set rs"
  with assms have "map fst r = cols" by (auto intro: harian_ok_cols)
  then show "dict_zip history_cols (map (col r) history_cols) = PyDict r"
    by (simp add: dict_zip_def history_cols_cols zip_project distinct_cols)
qed

lemma three_rows:
  "distinct [tanggal p1, tanggal p2, tanggal p3] \<Longrightarrow>
   estimasi_harian (both_upserts p3 (both_upserts p2 (both_upserts p1 empty_db)))
     = [zip cols (values_of p1), zip cols (values_of p2), zip cols (values_of p3)]"
  by (simp add: both_upserts_def empty_db_def upsert_sql_def key_of_excluded)

lemma float_cells_rows:
  "list_all (\<lambda>r. is_float (col r c)) t \<Longrightarrow> list_all2 (\<lambda>r x. col r c = PyFloat x) t (float_cells c t)"
  by (induction t) (auto simp: float_cells_def is_float_def split: pyval.splits)

lemma sql_avg_eq:
  "xs \<noteq> [] \<Longrightarrow> sql_avg fl xs = PyFloat (fl (float_sum fl xs / real (length xs)))"
  by (simp add: sql_avg_def)

lemma sql_min_eq: "xs \<noteq> [] \<Longrightarrow> sql_min xs = PyFloat (Min (set xs))"
  by (cases xs) (simp_all add: Min.set_eq_fold [symmetric] del: set_simps)

lemma sql_max_eq: "xs \<noteq> [] \<Longrightarrow> sql_max xs = PyFloat (Max (set xs))"
  by (cases xs) (simp_all add: Max.set_eq_fold [symmetric] del: set_simps)

lemma stats_ok:
  "first_error e 1 = None \<Longrightarrow>
   stats fl e db = Inr (PyDict [(''data'',
       PyDict [(''n_hari'', PyInt (int (length (estimasi_harian db)))),
               (''pm25_avg'', sql_avg fl (float_cells ''rata_rata_kota'' (estimasi_harian db))),
               (''pm25_min'', sql_min (float_cells ''rata_rata_kota'' (estimasi_harian db))),
               (''pm25_max'', sql_max (float_cells ''rata_rata_kota'' (estimasi_harian db)))])])"
  by (simp add: stats_def read_scope_ok stats_sql_def Let_def dict_zip_def)

lemma float_cells_three:
  "float_cells ''rata_rata_kota'' [zip cols (values_of p1), zip cols (values_of p2), zip cols (values_of p3)]
     = [rata_rata_kota p1, rata_rata_kota p2, rata_rata_kota p3]"
  by (simp add: float_cells_def col_excluded_rata)

lemma three_ingests:
  assumes "ingest e1 empty_db p1 = (Inr v1, db1)" "ingest e2 db1 p2 = (Inr v2, db2)"
    and "ingest e3 db2 p3 = (Inr v3, db3)"
  shows "db3 = both_upserts p3 (both_upserts p2 (both_upserts p1 empty_db))"
  using assms by (auto dest: ingest_Inr)

lemma db_ok_three_days: "db_ok three_days"
  by (simp add: three_days_def db_ok_both_upserts db_ok_empty)

lemma harian_three_days:
  "estimasi_harian three_days
     = [zip cols (values_of payload_beji), zip cols (values_of payload_meta), zip cols (values_of payload_third)]"
  unfolding three_days_def
  by (rule three_rows) (simp add: payload_beji_def payload_meta_def payload_third_def)

lemma order_three_days:
  "order_by_tanggal_desc (estimasi_harian three_days)
     = [zip cols (values_of payload_third), zip cols (values_of payload_meta), zip cols (values_of payload_beji)]"
  by (simp add: harian_three_days order_by_tanggal_desc_def tanggal_key_excluded
      payload_beji_def payload_meta_def payload_third_def)

text \<open>
  C6. \<^verbatim>\<open>latest\<close> takes no parameter. When the storage raises nothing, it returns, on a
  table with rows, the one stored row whose date is later than the date of every other
  row, as the dictionary of its fourteen columns, and on a table without rows the
  dictionary whose \<^verbatim>\<open>data\<close> is \<^verbatim>\<open>None\<close>.
\<close>

theorem latest_returns_newest:
  assumes "harian_ok (estimasi_harian db)" and "first_error e 1 = None"
    and "estimasi_harian db \<noteq> []"
  shows "(\<exists>r. latest e db = Inr (PyDict [(''data'', PyDict r)])
            \<and> r \<in> set (estimasi_harian db) \<and> map fst r = cols
            \<and> list_all (\<lambda>r'. r' = r \<or> tanggal_key r' < tanggal_key r) (estimasi_harian db))
       \<and> latest e (db\<lparr>estimasi_harian := []\<rparr>) = Inr (PyDict [(''data'', PyNone)])"
proof -
  let ?t = "estimasi_harian db"
  from assms(3) have "order_by_tanggal_desc ?t \<noteq> []"
    by (metis length_order_by length_0_conv)
  then obtain r rest where D: "order_by_tanggal_desc ?t = r # rest" by (cases "order_by_tanggal_desc ?t") auto
  from sorted_order_by[OF assms(1)] D have lt: "\<forall>x\<in>set rest. tanggal_key x < tanggal_key r" by simp
  from D have mem: "set ?t = insert r (set rest)" by (metis set_order_by list.simps(15))
  then have r: "r \<in> set ?t" by simp
  from mem lt have all: "list_all (\<lambda>r'. r' = r \<or> tanggal_key r' < tanggal_key r) ?t"
    by (auto simp: list_all_iff)
  have "latest e db = Inr (PyDict [(''data'', PyDict r)])"
    using assms(2) D by (simp add: latest_def read_scope_ok latest_sql_def dict_zip_def zip_map_fst_snd)
  moreover have "latest e (db\<lparr>estimasi_harian := []\<rparr>) = Inr (PyDict [(''data'', PyNone)])"
    using assms(2) by (simp add: latest_def read_scope_ok latest_sql_def order_by_Nil)
  ultimately show ?thesis using r all harian_ok_cols[OF assms(1) r] by blast
qed

theorem latest_returns_newest_witness:
  "harian_ok (estimasi_harian three_days) \<and> first_error no_faults 1 = None
   \<and> length (estimasi_harian three_days) = 3
   \<and> latest no_faults three_days = Inr (PyDict [(''data'', PyDict (zip cols (values_of payload_third)))])
   \<and> col (zip cols (values_of payload_third)) ''tanggal'' = PyDate 738888
   \<and> latest no_faults (three_days\<lparr>estimasi_harian := []\<rparr>) = Inr (PyDict [(''data'', PyNone)])"
proof -
  have ok: "harian_ok (estimasi_harian three_days)" using db_ok_three_days by (simp add: db_ok_def)
  have ne: "estimasi_harian three_days \<noteq> []" by (simp add: harian_three_days)
  have l: "latest no_faults three_days = Inr (PyDict [(''data'', PyDict (zip cols (values_of payload_third)))])"
    by (simp add: latest_def read_scope_ok first_error_no_faults latest_sql_def order_three_days
        dict_zip_def zip_map_fst_snd)
  have d: "col (zip cols (values_of payload_third)) ''tanggal'' = PyDate 738888"
    by (simp add: col_excluded_tanggal payload_third_def)
  from latest_returns_newest [OF ok first_error_no_faults ne] ok l d show ?thesis
    by (simp add: first_error_no_faults harian_three_days)
qed

text \<open>
  The history with a negative limit, or with one beyond PostgreSQL's \<^verbatim>\<open>bigint\<close>, raises
  on the empty table as on any other.
\<close>

theorem history_limit_counterexample:
  "history no_faults empty_db (- 1) = Inl (DatabaseError ''LIMIT must not be negative'')
   \<and> get_history no_faults empty_db (Some (- 1)) = PlainText 500 ''Internal Server Error''
   \<and> history no_faults empty_db 9223372036854775808 = Inl (DatabaseError ''bigint out of range'')"
  by (simp add: get_history_def history_def read_scope_ok first_error_no_faults history_sql_def pg_limit_def)

text \<open>
  C7, as the code has it. For a limit from 0 to \<^verbatim>\<open>2^63 - 1\<close> (30 when the request gives
  none) and when the storage raises nothing, the history returns the
  \<^verbatim>\<open>min limit (number of rows)\<close> newest rows, each as the dictionary of the fourteen
  listed columns, in strictly descending order of date: every row left out is older than
  every row returned. On a table without rows it returns the empty list.
\<close>

theorem history_newest_first:
  assumes "harian_ok (estimasi_harian db)" and "first_error e 1 = None"
    and "0 \<le> limit" and "limit \<le> 9223372036854775807"
  shows "(\<exists>rs. history e db limit = Inr (PyDict [(''data'', PyList (map PyDict rs))])
            \<and> length rs = min (nat limit) (length (estimasi_harian db))
            \<and> int (length rs) \<le> limit
            \<and> list_all (\<lambda>r. r \<in> set (estimasi_harian db) \<and> map fst r = history_cols) rs
            \<and> sorted_wrt (\<lambda>a b. tanggal_key b < tanggal_key a) rs
            \<and> list_all (\<lambda>r'. r' \<in> set rs \<or> list_all (\<lambda>r. tanggal_key r' < tanggal_key r) rs)
                 (estimasi_harian db))
       \<and> history e (db\<lparr>estimasi_harian := []\<rparr>) limit = Inr (PyDict [(''data'', PyList [])])
       \<and> get_history e db None = respond (history e db 30)"
proof -
  let ?t = "estimasi_harian db"
  let ?D = "order_by_tanggal_desc ?t"
  let ?rs = "take (nat limit) ?D"
  have sub: "set ?rs \<subseteq> set ?t" using set_take_subset[of "nat limit" ?D] by (simp add: set_order_by)
  have h: "history e db limit = Inr (PyDict [(''data'', PyList (map PyDict ?rs))])"
    using assms(2,3,4) project_rows[OF assms(1) sub]
    by (simp add: history_def read_scope_ok history_sql_def pg_limit_ok)
  have len: "length ?rs = min (nat limit) (length ?t)" by (simp add: length_order_by min.commute)
  have le: "int (length ?rs) \<le> limit" using assms(3) by (simp add: length_order_by)
  have mem: "list_all (\<lambda>r. r \<in> set ?t \<and> map fst r = history_cols) ?rs"
    using sub harian_ok_cols[OF assms(1)] by (auto simp: list_all_iff history_cols_cols)
  have srt: "sorted_wrt (\<lambda>a b. tanggal_key b < tanggal_key a) ?rs"
    using sorted_order_by[OF assms(1)] by (rule sorted_wrt_take)
  have "sorted_wrt (\<lambda>a b. tanggal_key b < tanggal_key a) (?rs @ drop (nat limit) ?D)"
    using sorted_order_by[OF assms(1)] by simp
  then have cross: "\<forall>x\<in>set ?rs. \<forall>y\<in>set (drop (nat limit) ?D). tanggal_key y < tanggal_key x"
    unfolding sorted_wrt_append by blast
  have new: "list_all (\<lambda>r'. r' \<in> set ?rs \<or> list_all (\<lambda>r. tanggal_key r' < tanggal_key r) ?rs) ?t"
  proof -
    have "r' \<in> set ?rs \<or> list_all (\<lambda>r. tanggal_key r' < tanggal_key r) ?rs" if "r' \<in> set ?t" for r'
    proof -
      from that have "r' \<in> set (?rs @ drop (nat limit) ?D)" by (simp add: set_order_by)
      then have "r' \<in> set ?rs \<or> r' \<in> set (drop (nat limit) ?D)" by (simp only: set_append Un_iff)
      with cross show ?thesis by (auto simp: list_all_iff)
    qed
    then show ?thesis by (simp add: list_all_iff)
  qed
  have emp: "history e (db\<lparr>estimasi_harian := []\<rparr>) limit = Inr (PyDict [(''data'', PyList [])])"
    using assms(2,3,4) by (simp add: history_def read_scope_ok history_sql_def pg_limit_ok order_by_Nil)
  have dflt: "get_history e db None = respond (history e db 30)" by (simp add: get_history_def)
  from h len le mem srt new have "\<exists>rs. history e db limit = Inr (PyDict [(''data'', PyList (map PyDict rs))])
            \<and> length rs = min (nat limit) (length (estimasi_harian db))
            \<and> int (length rs) \<le> limit
            \<and> list_all (\<lambda>r. r \<in> set (estimasi_harian db) \<and> map fst r = history_cols) rs
            \<and> sorted_wrt (\<lambda>a b. tanggal_key b < tanggal_key a) rs
            \<and> list_all (\<lambda>r'. r' \<in> set rs \<or> list_all (\<lambda>r. tanggal_key r' < tanggal_key r) rs)
                 (estimasi_harian db)"
    by blast
  with emp dflt show ?thesis by blast
qed

theorem history_newest_first_witness:
  "harian_ok (estimasi_harian three_days) \<and> first_error no_faults 1 = None
   \<and> length (estimasi_harian three_days) = 3
   \<and> history no_faults three_days 2
       = Inr (PyDict [(''data'', PyList [PyDict (zip cols (values_of payload_third)),
                                        PyDict (zip cols (values_of payload_meta))])])
   \<and> tanggal_key (zip cols (values_of payload_third)) = Some 738888
   \<and> tanggal_key (zip cols (values_of payload_meta)) = Some 738887
   \<and> history no_faults (three_days\<lparr>estimasi_harian := []\<rparr>) 2 = Inr (PyDict [(''data'', PyList [])])"
proof -
  have ok: "harian_ok (estimasi_harian three_days)" using db_ok_three_days by (simp add: db_ok_def)
  have sub: "set (take 2 (order_by_tanggal_desc (estimasi_harian three_days))) \<subseteq> set (estimasi_harian three_days)"
    using set_take_subset [of 2 "order_by_tanggal_desc (estimasi_harian three_days)"]
    by (simp only: set_order_by)
  have h: "history no_faults three_days 2
       = Inr (PyDict [(''data'', PyList [PyDict (zip cols (values_of payload_third)),
                                        PyDict (zip cols (values_of payload_meta))])])"
    using project_rows [OF ok sub]
    by (simp add: history_def read_scope_ok first_error_no_faults history_sql_def pg_limit_def
        order_three_days)
  have k: "tanggal_key (zip cols (values_of payload_third)) = Some 738888"
    "tanggal_key (zip cols (values_of payload_meta)) = Some 738887"
    by (simp_all add: tanggal_key_excluded payload_third_def payload_meta_def)
  from history_newest_first [OF ok first_error_no_faults, of 2] ok h k show ?thesis
    by (simp add: first_error_no_faults harian_three_days)
qed

text \<open>
  C8. When the storage raises nothing, \<^verbatim>\<open>stats\<close> returns one dictionary: the number of
  rows, and the mean, the least and the greatest of the city averages of all rows, the
  mean as double precision computes it (the rounded quotient of the rounded sum and the
  count, the exact mean where nothing is rounded); on a table without rows the number is
  0 and the three aggregates are \<^verbatim>\<open>None\<close>. After three ingests into the empty database,
  of payloads with city averages 10, 20 and 30 on three distinct dates, it returns 3, 20,
  10 and 30: the sums 10, 30 and 60 and the quotient 20 are doubles.
\<close>

theorem stats_aggregates:
  assumes "harian_ok (estimasi_harian db)" and "first_error e 1 = None"
  shows "stats fl e db = Inr (PyDict [(''data'',
           PyDict [(''n_hari'', PyInt (int (length (estimasi_harian db)))),
                   (''pm25_avg'', sql_avg fl (float_cells ''rata_rata_kota'' (estimasi_harian db))),
                   (''pm25_min'', sql_min (float_cells ''rata_rata_kota'' (estimasi_harian db))),
                   (''pm25_max'', sql_max (float_cells ''rata_rata_kota'' (estimasi_harian db)))])])
       \<and> list_all2 (\<lambda>r x. col r ''rata_rata_kota'' = PyFloat x) (estimasi_harian db)
            (float_cells ''rata_rata_kota'' (estimasi_harian db))
       \<and> (estimasi_harian db \<noteq> [] \<longrightarrow>
            sql_avg fl (float_cells ''rata_rata_kota'' (estimasi_harian db))
              = PyFloat (fl (float_sum fl (float_cells ''rata_rata_kota'' (estimasi_harian db))
                              / real (length (estimasi_harian db))))
            \<and> sql_min (float_cells ''rata_rata_kota'' (estimasi_harian db))
              = PyFloat (Min (set (float_cells ''rata_rata_kota'' (estimasi_harian db))))
            \<and> sql_max (float_cells ''rata_rata_kota'' (estimasi_harian db))
              = PyFloat (Max (set (float_cells ''rata_rata_kota'' (estimasi_harian db)))))
       \<and> (estimasi_harian db \<noteq> []
            \<and> float_sum fl (float_cells ''rata_rata_kota'' (estimasi_harian db))
                = sum_list (float_cells ''rata_rata_kota'' (estimasi_harian db))
            \<and> fl (sum_list (float_cells ''rata_rata_kota'' (estimasi_harian db))
                     / real (length (estimasi_harian db)))
                = sum_list (float_cells ''rata_rata_kota'' (estimasi_harian db))
                     / real (length (estimasi_harian db)) \<longrightarrow>
            sql_avg fl (float_cells ''rata_rata_kota'' (estimasi_harian db))
              = PyFloat (sum_list (float_cells ''rata_rata_kota'' (estimasi_harian db))
                          / real (length (estimasi_harian db))))
       \<and> float_sum fl [] = 0 \<and> float_sum fl (ys @ [y]) = fl (float_sum fl ys + y)
       \<and> stats fl e (db\<lparr>estimasi_harian := []\<rparr>) = Inr (PyDict [(''data'',
           PyDict [(''n_hari'', PyInt 0), (''pm25_avg'', PyNone), (''pm25_min'', PyNone),
                   (''pm25_max'', PyNone)])])
       \<and> (ingest e1 empty_db p1 = (Inr v1, db1) \<and> ingest e2 db1 p2 = (Inr v2, db2)
            \<and> ingest e3 db2 p3 = (Inr v3, db3)
            \<and> rata_rata_kota p1 = 10 \<and> rata_rata_kota p2 = 20 \<and> rata_rata_kota p3 = 30
            \<and> distinct [tanggal p1, tanggal p2, tanggal p3]
            \<and> fl 10 = 10 \<and> fl 30 = 30 \<and> fl 60 = 60 \<and> fl 20 = 20 \<longrightarrow>
          stats fl e db3 = Inr (PyDict [(''data'',
           PyDict [(''n_hari'', PyInt 3), (''pm25_avg'', PyFloat 20), (''pm25_min'', PyFloat 10),
                   (''pm25_max'', PyFloat 30)])]))"
proof -
  let ?t = "estimasi_harian db"
  let ?xs = "float_cells ''rata_rata_kota'' ?t"
  from assms(1) have "list_all (\<lambda>r. is_float (col r ''rata_rata_kota'')) ?t"
    by (simp add: harian_ok_def list_all_iff)
  then have rows: "list_all2 (\<lambda>r x. col r ''rata_rata_kota'' = PyFloat x) ?t ?xs"
    by (rule float_cells_rows)
  then have len: "length ?xs = length ?t" by (simp add: list_all2_lengthD)
  have agg: "sql_avg fl ?xs = PyFloat (fl (float_sum fl ?xs / real (length ?t)))
      \<and> sql_min ?xs = PyFloat (Min (set ?xs)) \<and> sql_max ?xs = PyFloat (Max (set ?xs))"
    if "?t \<noteq> []"
  proof -
    from that len have "?xs \<noteq> []" by auto
    then show ?thesis using len by (simp add: sql_avg_eq sql_min_eq sql_max_eq)
  qed
  have exact: "sql_avg fl ?xs = PyFloat (sum_list ?xs / real (length ?t))"
    if "?t \<noteq> []" "float_sum fl ?xs = sum_list ?xs"
       "fl (sum_list ?xs / real (length ?t)) = sum_list ?xs / real (length ?t)"
    using agg[OF that(1)] that(2,3) by simp
  have emp: "stats fl e (db\<lparr>estimasi_harian := []\<rparr>) = Inr (PyDict [(''data'',
           PyDict [(''n_hari'', PyInt 0), (''pm25_avg'', PyNone), (''pm25_min'', PyNone),
                   (''pm25_max'', PyNone)])])"
    using assms(2) by (simp add: stats_ok float_cells_def sql_avg_def)
  have three: "stats fl e db3 = Inr (PyDict [(''data'',
           PyDict [(''n_hari'', PyInt 3), (''pm25_avg'', PyFloat 20), (''pm25_min'', PyFloat 10),
                   (''pm25_max'', PyFloat 30)])])"
    if i: "ingest e1 empty_db p1 = (Inr v1, db1)" "ingest e2 db1 p2 = (Inr v2, db2)"
          "ingest e3 db2 p3 = (Inr v3, db3)"
      and r: "rata_rata_kota p1 = 10" "rata_rata_kota p2 = 20" "rata_rata_kota p3 = 30"
      and d: "distinct [tanggal p1, tanggal p2, tanggal p3]"
      and f: "fl 10 = 10" "fl 30 = 30" "fl 60 = 60" "fl 20 = 20"
  proof -
    have "db3 = both_upserts p3 (both_upserts p2 (both_upserts p1 empty_db))"
      using i by (rule three_ingests)
    with d have t: "estimasi_harian db3
        = [zip cols (values_of p1), zip cols (values_of p2), zip cols (values_of p3)]"
      by (simp only: three_rows)
    have "float_sum fl [10, 20, 30] = 60" using f by (simp add: float_sum_def)
    then have "sql_avg fl [10, 20, 30] = PyFloat 20" using f by (simp add: sql_avg_def)
    then show ?thesis using assms(2) r by (simp add: stats_ok t float_cells_three)
  qed
  have fs: "float_sum fl [] = 0 \<and> float_sum fl (ys @ [y]) = fl (float_sum fl ys + y)"
    by (simp add: float_sum_def)
  from stats_ok[OF assms(2), of fl db] rows agg exact emp three fs show ?thesis by blast
qed

theorem stats_aggregates_witness:
  "harian_ok (estimasi_harian three_days) \<and> first_error no_faults 1 = None
   \<and> ingest no_faults empty_db payload_beji = (Inr (ingest_ok 0), both_upserts payload_beji empty_db)
   \<and> ingest no_faults (both_upserts payload_beji empty_db) payload_meta
       = (Inr (ingest_ok 2), both_upserts payload_meta (both_upserts payload_beji empty_db))
   \<and> ingest no_faults (both_upserts payload_meta (both_upserts payload_beji empty_db)) payload_third
       = (Inr (ingest_ok 0), three_days)
   \<and> rata_rata_kota payload_beji = 10 \<and> rata_rata_kota payload_meta = 20
   \<and> rata_rata_kota payload_third = 30
   \<and> distinct [tanggal payload_beji, tanggal payload_meta, tanggal payload_third]
   \<and> stats (\<lambda>x. x) no_faults three_days = Inr (PyDict [(''data'',
           PyDict [(''n_hari'', PyInt 3), (''pm25_avg'', PyFloat 20), (''pm25_min'', PyFloat 10),
                   (''pm25_max'', PyFloat 30)])])
   \<and> stats (\<lambda>x. x) no_faults (three_days\<lparr>estimasi_harian := []\<rparr>) = Inr (PyDict [(''data'',
           PyDict [(''n_hari'', PyInt 0), (''pm25_avg'', PyNone), (''pm25_min'', PyNone),
                   (''pm25_max'', PyNone)])])"
proof -
  have ok: "harian_ok (estimasi_harian three_days)" using db_ok_three_days by (simp add: db_ok_def)
  have i1: "ingest no_faults empty_db payload_beji = (Inr (ingest_ok 0), both_upserts payload_beji empty_db)"
    by (simp add: ingest_no_faults meta_rows_of_def payload_beji_def)
  have i2: "ingest no_faults (both_upserts payload_beji empty_db) payload_meta
       = (Inr (ingest_ok 2), both_upserts payload_meta (both_upserts payload_beji empty_db))"
    by (simp add: ingest_no_faults meta_rows_of_def payload_meta_def numeral_2_eq_2)
  have i3: "ingest no_faults (both_upserts payload_meta (both_upserts payload_beji empty_db)) payload_third
       = (Inr (ingest_ok 0), three_days)"
    by (simp add: ingest_no_faults meta_rows_of_def payload_third_def three_days_def)
  have v: "rata_rata_kota payload_beji = 10" "rata_rata_kota payload_meta = 20"
    "rata_rata_kota payload_third = 30"
    "distinct [tanggal payload_beji, tanggal payload_meta, tanggal payload_third]"
    by (simp_all add: payload_beji_def payload_meta_def payload_third_def)
  note th = stats_aggregates [OF ok first_error_no_faults, of "\<lambda>x. x" "[]" 0 no_faults payload_beji
      "ingest_ok 0" "both_upserts payload_beji empty_db" no_faults payload_meta "ingest_ok 2"
      "both_upserts payload_meta (both_upserts payload_beji empty_db)" no_faults payload_third
      "ingest_ok 0" three_days]
  from th i1 i2 i3 v have s3: "stats (\<lambda>x. x) no_faults three_days = Inr (PyDict [(''data'',
           PyDict [(''n_hari'', PyInt 3), (''pm25_avg'', PyFloat 20), (''pm25_min'', PyFloat 10),
                   (''pm25_max'', PyFloat 30)])])"
    by blast
  from th have s0: "stats (\<lambda>x. x) no_faults (three_days\<lparr>estimasi_harian := []\<rparr>) = Inr (PyDict [(''data'',
           PyDict [(''n_hari'', PyInt 0), (''pm25_avg'', PyNone), (''pm25_min'', PyNone),
                   (''pm25_max'', PyNone)])])"
    by blast
  from ok i1 i2 i3 v s3 s0 show ?thesis by (simp add: first_error_no_faults)
qed

end
